theory Spec2Isabelle
  imports Main "HOL-Library.Word"
begin

section \<open>JavaScript values as the code sees them\<close>

text \<open>
  A response body is whatever \<^verbatim>\<open>resp.json()\<close> produced: null, a boolean, a number, a
  string, an array or an object. Numbers are modelled as integers (exit codes, latencies,
  ports); the contents of response strings and of messages are 8-bit strings. An object is
  its list of own properties, looked up by key (the first binding of a key is the
  property). A property read that finds nothing is \<^verbatim>\<open>undefined\<close>, modelled as \<open>None\<close>.
\<close>

datatype jsval =
    JNull
  | JBool bool
  | JNum int
  | JStr string
  | JArr "jsval list"
  | JObj "(string \<times> jsval) list"

text \<open>\<^verbatim>\<open>data && typeof data === 'object'\<close>: arrays and objects, not null.\<close>

fun is_object :: "jsval \<Rightarrow> bool" where
  "is_object (JArr _) = True"
| "is_object (JObj _) = True"
| "is_object _ = False"

text \<open>
  \<^verbatim>\<open>data.key\<close> and \<^verbatim>\<open>'key' in data\<close> for the keys the code reads (stdout, exit_code,
  latency_ms, status, error, message): neither \<^verbatim>\<open>Object.prototype\<close> nor
  \<^verbatim>\<open>Array.prototype\<close> has a property of one of these names, so only own properties of
  an object are found.
\<close>

fun get_prop :: "jsval \<Rightarrow> string \<Rightarrow> jsval option" where
  "get_prop (JObj kvs) k = map_of kvs k"
| "get_prop _ k = None"

definition has_prop :: "jsval \<Rightarrow> string \<Rightarrow> bool" where
  "has_prop d k = (get_prop d k \<noteq> None)"

text \<open>Truthiness, as \<^verbatim>\<open>if (x)\<close> and \<^verbatim>\<open>x || y\<close> test it.\<close>

fun truthy :: "jsval \<Rightarrow> bool" where
  "truthy JNull = False"
| "truthy (JBool b) = b"
| "truthy (JNum n) = (n \<noteq> 0)"
| "truthy (JStr s) = (s \<noteq> [])"
| "truthy (JArr _) = True"
| "truthy (JObj _) = True"

text \<open>\<^verbatim>\<open>a || b\<close> on a possibly undefined left operand.\<close>

definition js_or :: "jsval option \<Rightarrow> jsval option \<Rightarrow> jsval option" where
  "js_or a b = (case a of Some v \<Rightarrow> (if truthy v then Some v else b) | None \<Rightarrow> b)"

text \<open>\<^verbatim>\<open>a ?? d\<close>: the default replaces \<^verbatim>\<open>undefined\<close> and \<^verbatim>\<open>null\<close> only.\<close>

definition nullish :: "jsval option \<Rightarrow> jsval \<Rightarrow> jsval" where
  "nullish a d = (case a of None \<Rightarrow> d | Some JNull \<Rightarrow> d | Some v \<Rightarrow> v)"

subsection \<open>Decimal rendering of numbers\<close>

definition digit_char :: "nat \<Rightarrow> char" where
  "digit_char d = ''0123456789'' ! d"

function show_nat :: "nat \<Rightarrow> string" where
  "show_nat n = (if n < 10 then [digit_char n] else show_nat (n div 10) @ [digit_char (n mod 10)])"
  by pat_completeness auto
termination
  by (relation "measure id") auto

declare show_nat.simps [simp del]

definition show_int :: "int \<Rightarrow> string" where
  "show_int i = (if i < 0 then CHR ''-'' # show_nat (nat (- i)) else show_nat (nat i))"

subsection \<open>Conversion to string, which can raise\<close>

text \<open>
  A template literal \<^verbatim>\<open>`${v}`\<close> converts \<open>v\<close> to a string. For an object this calls its
  \<^verbatim>\<open>toString\<close>: the inherited one gives \<^verbatim>\<open>[object Object]\<close>, but a parsed object with
  an own property named \<^verbatim>\<open>toString\<close> (never callable in JSON) has no usable conversion
  and the engine raises a TypeError. An array joins its elements with commas, null
  elements as empty strings. \<open>None\<close> is the raised TypeError.
\<close>

fun js_toString :: "jsval \<Rightarrow> string option"
  and join_elems :: "jsval list \<Rightarrow> string option" where
  "js_toString JNull = Some ''null''"
| "js_toString (JBool b) = Some (if b then ''true'' else ''false'')"
| "js_toString (JNum n) = Some (show_int n)"
| "js_toString (JStr s) = Some s"
| "js_toString (JArr xs) = join_elems xs"
| "js_toString (JObj kvs) =
     (if map_of kvs ''toString'' \<noteq> None then None else Some ''[object Object]'')"
| "join_elems [] = Some []"
| "join_elems (x # xs) =
     (case (if x = JNull then Some [] else js_toString x) of
        None \<Rightarrow> None
      | Some s \<Rightarrow>
          (if xs = [] then Some s
           else (case join_elems xs of None \<Rightarrow> None | Some t \<Rightarrow> Some (s @ '','' @ t))))"

definition type_error_msg :: string where
  "type_error_msg = ''Cannot convert object to primitive value''"

text \<open>
  \<^verbatim>\<open>Number(v) === 0\<close>. Null and false convert to 0, true to 1; an array or object is
  first converted to a string (which can raise, as above) and the string is then read as a
  number. Reading a string as a number is the engine's \<^verbatim>\<open>StringToNumber\<close>, a parameter of
  the model (see \<open>platform\<close> below): \<open>None\<close> stands for NaN.
\<close>

record platform =
  utf8_encode :: "16 word list \<Rightarrow> 8 word list"
  sha256 :: "8 word list \<Rightarrow> 8 word list"
  string_to_number :: "string \<Rightarrow> int option"
  to_upper :: "string \<Rightarrow> string"

fun number_is_zero :: "platform \<Rightarrow> jsval \<Rightarrow> bool option" where
  "number_is_zero P JNull = Some True"
| "number_is_zero P (JBool b) = Some (\<not> b)"
| "number_is_zero P (JNum n) = Some (n = 0)"
| "number_is_zero P (JStr s) = Some (string_to_number P s = Some 0)"
| "number_is_zero P v =
     (case js_toString v of None \<Rightarrow> None | Some s \<Rightarrow> Some (string_to_number P s = Some 0))"

section \<open>The observable world\<close>

text \<open>
  What the code reads and writes outside its own variables: the terminal (each printed
  line with its style), the IndexedDB store \<^verbatim>\<open>execution_results\<close>, the network requests
  sent (URL and timeout of each \<^verbatim>\<open>fetch\<close>), the delays waited between attempts, the
  messages posted to the background worker, and whether Pyodide has been loaded.
  The store is assumed open (\<^verbatim>\<open>AuraSystem.mount\<close> has run) and a \<^verbatim>\<open>put\<close> to succeed.
\<close>

record world =
  terminal :: "(string \<times> string) list"
  cache :: "string \<Rightarrow> jsval option"
  requests :: "(string \<times> nat) list"
  sleeps :: "nat list"
  worker_inbox :: "16 word list list"
  pyodide_ready :: bool

datatype 'a outcome = Threw string | Ret 'a

text \<open>
  What one \<^verbatim>\<open>fetch\<close> does: it rejects (connection refused, aborted by the timeout), or
  it resolves to a response with a status and a body that \<^verbatim>\<open>resp.json()\<close> either
  rejects (\<open>Inl\<close>, the parse error's message) or parses (\<open>Inr\<close>).
\<close>

datatype fetch_result = Rejected string | Responded nat "string + jsval"

datatype load_result = LoadThrows string | PackageThrows string | Loaded

datatype py_result = PyThrows string | PyResult "string option"

text \<open>
  The surroundings of one call: the request id drawn by \<^verbatim>\<open>crypto.randomUUID()\<close>, the
  network (an arbitrary function of the attempt number, URL and timeout; the request body
  is the same for every attempt of a call, so it is not an argument), and Pyodide.
\<close>

record env =
  uuid :: string
  fetch :: "nat \<Rightarrow> string \<Rightarrow> nat \<Rightarrow> fetch_result"
  load_pyodide :: load_result
  run_python :: "16 word list \<Rightarrow> py_result"

text \<open>\<^verbatim>\<open>Terminal.print(msg, type)\<close> with a string message.\<close>

definition print_line :: "world \<Rightarrow> string \<Rightarrow> string \<Rightarrow> world" where
  "print_line w msg ty = w\<lparr>terminal := terminal w @ [(msg, ty)]\<rparr>"

text \<open>
  \<^verbatim>\<open>Terminal.print(v, type)\<close> with any value: the message is interpolated into the
  line's HTML, so a value without a string conversion raises before anything is appended.
\<close>

definition print_val :: "world \<Rightarrow> jsval \<Rightarrow> string \<Rightarrow> world option" where
  "print_val w v ty = (case js_toString v of None \<Rightarrow> None | Some s \<Rightarrow> Some (print_line w s ty))"

section \<open>AuraComm: the communication layer\<close>

text \<open>
  The version of \<^verbatim>\<open>AuraComm\<close> with port lists (the last one in start-local.js).
  A result object is \<^verbatim>\<open>{ success, output, exit_code, latency_ms }\<close> or
  \<^verbatim>\<open>{ success: false, error }\<close>.
\<close>

datatype node_result =
    Executed bool "jsval option" jsval jsval
  | Failed jsval

definition or_default :: "jsval option \<Rightarrow> jsval \<Rightarrow> jsval" where
  "or_default a d = (case js_or a (Some d) of Some v \<Rightarrow> v | None \<Rightarrow> d)"

text \<open>
  The body of the \<^verbatim>\<open>try\<close> in \<^verbatim>\<open>handleResponse\<close>, for an object: the line it prints and
  the result it returns, or \<open>None\<close> when a conversion raised (every conversion happens
  before the print of its branch).
\<close>

definition handle_body :: "platform \<Rightarrow> jsval \<Rightarrow> ((string \<times> string) \<times> node_result) option" where
  "handle_body P data =
     (let lat = nullish (get_prop data ''latency_ms'') (JNum 0) in
      if has_prop data ''stdout'' \<and> has_prop data ''exit_code'' then
        (case get_prop data ''exit_code'' of
           None \<Rightarrow> None
         | Some ec \<Rightarrow>
            (case number_is_zero P ec of
               None \<Rightarrow> None
             | Some ok \<Rightarrow>
                (case js_toString ec of
                   None \<Rightarrow> None
                 | Some se \<Rightarrow>
                    (case js_toString lat of
                       None \<Rightarrow> None
                     | Some sl \<Rightarrow>
                         Some ((''Node Response: [Exit '' @ se @ ''] ['' @ sl @ ''ms]'',
                                if ok then ''success'' else ''error''),
                               Executed ok (get_prop data ''stdout'') ec lat)))))
      else if get_prop data ''status'' = Some (JStr ''success'') then
        (case js_toString lat of
           None \<Rightarrow> None
         | Some sl \<Rightarrow>
             Some ((''Node Response: [Exit 0] ['' @ sl @ ''ms]'', ''success''),
                   Executed True (get_prop data ''stdout'') (JNum 0) lat))
      else
        (let err = or_default (get_prop data ''error'')
                     (or_default (get_prop data ''message'') (JStr ''Unknown node response'')) in
         case js_toString err of
           None \<Rightarrow> None
         | Some s \<Rightarrow> Some ((''Node Exception: '' @ s, ''error''), Failed err)))"

text \<open>
  \<^verbatim>\<open>handleResponse(data)\<close>. \<open>None\<close> is \<^verbatim>\<open>undefined\<close>: the function has no \<^verbatim>\<open>return\<close>
  after the \<^verbatim>\<open>if (data && typeof data === 'object')\<close> block.
\<close>

definition handleResponse :: "platform \<Rightarrow> world \<Rightarrow> jsval \<Rightarrow> world \<times> node_result option" where
  "handleResponse P w data =
     (if is_object data then
        (case handle_body P data of
           Some (line, r) \<Rightarrow> (print_line w (fst line) (snd line), Some r)
         | None \<Rightarrow>
             (print_line w (''Response Parse Error: '' @ type_error_msg) ''error'',
              Some (Failed (JStr type_error_msg))))
      else (w, None))"

subsection \<open>The configured ports and the candidate endpoints\<close>

type_synonym nodes = "(string \<times> nat list) list"

text \<open>\<^verbatim>\<open>Array.from({length:10}, (_,i) => base + i)\<close> for cpp, python and rust.\<close>

definition AuraComm_nodes :: nodes where
  "AuraComm_nodes =
     [(''cpp'', map (\<lambda>i. 56000 + i) [0..<10]),
      (''python'', map (\<lambda>i. 55000 + i) [0..<10]),
      (''rust'', map (\<lambda>i. 58000 + i) [0..<10])]"

text \<open>
  \<^verbatim>\<open>this.nodes[lang]\<close> reads a property of an object literal: a key the object does not
  own is looked up in \<^verbatim>\<open>Object.prototype\<close>, whose members are functions (with a
  \<^verbatim>\<open>length\<close>) and, for \<^verbatim>\<open>__proto__\<close>, the prototype object itself (without one).
  They are truthy and not iterable.
\<close>

definition object_prototype :: "(string \<times> nat option) list" where
  "object_prototype =
     [(''constructor'', Some 1), (''toString'', Some 0), (''toLocaleString'', Some 0),
      (''valueOf'', Some 0), (''hasOwnProperty'', Some 1), (''isPrototypeOf'', Some 1),
      (''propertyIsEnumerable'', Some 1), (''__defineGetter__'', Some 2),
      (''__defineSetter__'', Some 2), (''__lookupGetter__'', Some 1),
      (''__lookupSetter__'', Some 1), (''__proto__'', None)]"

datatype node_entry = PortList "nat list" | Inherited "nat option"

definition nodes_get :: "nodes \<Rightarrow> string \<Rightarrow> node_entry option" where
  "nodes_get ns k =
     (case map_of ns k of
        Some ps \<Rightarrow> Some (PortList ps)
      | None \<Rightarrow> map_option Inherited (map_of object_prototype k))"

text \<open>\<^verbatim>\<open>const ports = this.nodes[lang] || this.nodes.python\<close> (every entry is truthy).\<close>

definition resolve_ports :: "nodes \<Rightarrow> string \<Rightarrow> node_entry option" where
  "resolve_ports ns lang =
     (case nodes_get ns lang of Some e \<Rightarrow> Some e | None \<Rightarrow> nodes_get ns ''python'')"

text \<open>\<^verbatim>\<open>const path = (lang === 'python') ? '/execute' : '/bridge'\<close>\<close>

definition request_path :: "string \<Rightarrow> string" where
  "request_path lang = (if lang = ''python'' then ''/execute'' else ''/bridge'')"

text \<open>\<^verbatim>\<open>`http://localhost:${port}${path}`\<close>\<close>

definition candidate_url :: "nat \<Rightarrow> string \<Rightarrow> string" where
  "candidate_url port path = ''http://localhost:'' @ show_nat port @ path"

text \<open>
  The endpoints a dispatch for \<open>lang\<close> probes, in order: the resolved ports, each with
  the path chosen from \<open>lang\<close>. \<open>None\<close> when the resolved entry is not a port list.
\<close>

definition candidates :: "nodes \<Rightarrow> string \<Rightarrow> (nat \<times> string) list option" where
  "candidates ns lang =
     (case resolve_ports ns lang of
        Some (PortList ps) \<Rightarrow> Some (map (\<lambda>p. (p, request_path lang)) ps)
      | _ \<Rightarrow> None)"

subsection \<open>One attempt and the candidate loop\<close>

text \<open>
  \<^verbatim>\<open>tryPost(url, body, timeout)\<close>: \<open>Inl\<close> is the message of the exception it throws
  (the rejected fetch, \<^verbatim>\<open>HTTP <status>\<close> when \<^verbatim>\<open>!resp.ok\<close>, or the body's parse error),
  \<open>Inr\<close> the parsed body.
\<close>

definition tryPost :: "env \<Rightarrow> nat \<Rightarrow> string \<Rightarrow> nat \<Rightarrow> string + jsval" where
  "tryPost E k url tmo =
     (case fetch E k url tmo of
        Rejected msg \<Rightarrow> Inl msg
      | Responded status body \<Rightarrow>
          (if 200 \<le> status \<and> status \<le> 299 then body
           else Inl (''HTTP '' @ show_nat status)))"

definition attempt_timeout :: "nat \<Rightarrow> nat" where
  "attempt_timeout k = 4000 + k * 500"

definition attempt_delay :: "nat \<Rightarrow> nat" where
  "attempt_delay k = 200 + k * 50"

text \<open>
  The \<^verbatim>\<open>for (const port of ports)\<close> loop, \<open>attempt\<close> being the counter before the
  iteration. The result \<open>Some r\<close> is the \<^verbatim>\<open>return this.handleResponse(result)\<close> of an
  iteration, \<open>None\<close> is the loop running off the end of the list.
\<close>

fun try_ports ::
  "platform \<Rightarrow> env \<Rightarrow> string \<Rightarrow> world \<Rightarrow> nat \<Rightarrow> nat list \<Rightarrow> world \<times> node_result option option" where
  "try_ports P E path w attempt [] = (w, None)"
| "try_ports P E path w attempt (port # rest) =
     (let k = Suc attempt;
          url = candidate_url port path;
          w1 = print_line w (''Comm: Attempt '' @ show_nat k @ '' -> '' @ url) ''dim'';
          w2 = w1\<lparr>requests := requests w1 @ [(url, attempt_timeout k)]\<rparr>
      in case tryPost E k url (attempt_timeout k) of
           Inr body \<Rightarrow> (case handleResponse P w2 body of (w3, r) \<Rightarrow> (w3, Some r))
         | Inl msg \<Rightarrow>
             (let w3 = print_line w2 (''Comm: Port '' @ show_nat port @ '' failed ('' @ msg @ '').'') ''dim'';
                  w4 = w3\<lparr>sleeps := sleeps w3 @ [attempt_delay k]\<rparr>
              in try_ports P E path w4 k rest))"

subsection \<open>dispatch\<close>

text \<open>\<^verbatim>\<open>btoa(source)\<close> raises when a code unit of the source is above 255.\<close>

definition is_latin1 :: "16 word list \<Rightarrow> bool" where
  "is_latin1 s = list_all (\<lambda>c. c \<le> 255) s"

definition btoa_error_msg :: string where
  "btoa_error_msg = ''The string to be encoded contains characters outside of the Latin1 range.''"

definition not_iterable_msg :: string where
  "not_iterable_msg = ''ports is not iterable''"

definition undefined_length_msg :: string where
  "undefined_length_msg = ''Cannot read properties of undefined (reading length)''"

definition no_ports_error :: "string \<Rightarrow> string" where
  "no_ports_error lang = ''No available '' @ lang @ '' node ports''"

definition all_failed_line :: "platform \<Rightarrow> nat \<Rightarrow> string \<Rightarrow> string" where
  "all_failed_line P n lang =
     ''Comm Error: All '' @ show_nat n @ '' ports failed for '' @ to_upper P lang"

text \<open>
  \<^verbatim>\<open>AuraComm.dispatch(lang, source)\<close>. The payload is built first (\<^verbatim>\<open>btoa\<close> is outside
  every \<^verbatim>\<open>try\<close>), then the ports are resolved, then the loop runs; after the loop the
  call prints the count of ports and returns the failure naming \<open>lang\<close>.
\<close>

definition dispatch ::
  "platform \<Rightarrow> env \<Rightarrow> nodes \<Rightarrow> world \<Rightarrow> string \<Rightarrow> 16 word list \<Rightarrow> world \<times> node_result option outcome" where
  "dispatch P E ns w lang source =
     (if \<not> is_latin1 source then (w, Threw btoa_error_msg)
      else
        (let w1 = print_line w (''Comm: Payload '' @ take 8 (uuid E) @ '' generated.'') ''dim'' in
         case resolve_ports ns lang of
           None \<Rightarrow> (w1, Threw undefined_length_msg)
         | Some (Inherited len) \<Rightarrow>
             (print_line w1
                (''Comm: Trying '' @ (case len of None \<Rightarrow> ''undefined'' | Some n \<Rightarrow> show_nat n)
                   @ '' ports for '' @ to_upper P lang @ '' node...'') ''info'',
              Threw not_iterable_msg)
         | Some (PortList ports) \<Rightarrow>
             (let w2 = print_line w1
                         (''Comm: Trying '' @ show_nat (length ports) @ '' ports for ''
                            @ to_upper P lang @ '' node...'') ''info''
              in case try_ports P E (request_path lang) w2 0 ports of
                   (w3, Some r) \<Rightarrow> (w3, Ret r)
                 | (w3, None) \<Rightarrow>
                     (print_line w3 (all_failed_line P (length ports) lang) ''error'',
                      Ret (Some (Failed (JStr (no_ports_error lang))))))))"

section \<open>AuraRunner: the execution facade with its result cache\<close>

text \<open>
  The editor's buffer is a JavaScript string, a sequence of 16-bit code units; the engine
  name is an 8-bit string, widened when it is appended to the buffer.
\<close>

definition widen :: "string \<Rightarrow> 16 word list" where
  "widen s = map (\<lambda>c. of_nat (of_char c)) s"

text \<open>The code units \<^verbatim>\<open>String.prototype.trim\<close> removes (white space and line ends).\<close>

definition is_js_space :: "16 word \<Rightarrow> bool" where
  "is_js_space c =
     (c \<in> set [9, 10, 11, 12, 13, 32, 160, 5760, 8232, 8233, 8239, 8287, 12288, 65279]
      \<or> (8192 \<le> c \<and> c \<le> 8202))"

text \<open>\<^verbatim>\<open>!code.trim()\<close>\<close>

definition is_blank :: "16 word list \<Rightarrow> bool" where
  "is_blank code = list_all is_js_space code"

text \<open>\<^verbatim>\<open>b.toString(16).padStart(2, '0')\<close>\<close>

definition hex_byte :: "8 word \<Rightarrow> string" where
  "hex_byte b = [''0123456789abcdef'' ! (unat b div 16), ''0123456789abcdef'' ! (unat b mod 16)]"

text \<open>
  \<^verbatim>\<open>AuraRunner.hash(text)\<close>: the hexadecimal rendering of the SHA-256 digest of the
  UTF-8 encoding of the text. \<^verbatim>\<open>TextEncoder\<close> and \<^verbatim>\<open>crypto.subtle.digest\<close> belong to
  the browser and are parameters.
\<close>

definition hash :: "platform \<Rightarrow> 16 word list \<Rightarrow> string" where
  "hash P text = concat (map hex_byte (sha256 P (utf8_encode P text)))"

text \<open>\<^verbatim>\<open>const codeHash = await this.hash(code + engine)\<close>\<close>

definition codeHash :: "platform \<Rightarrow> 16 word list \<Rightarrow> string \<Rightarrow> string" where
  "codeHash P code engine = hash P (code @ widen engine)"

definition checkCache :: "world \<Rightarrow> string \<Rightarrow> jsval option" where
  "checkCache w h = cache w h"

definition setCache :: "world \<Rightarrow> string \<Rightarrow> jsval \<Rightarrow> world" where
  "setCache w h v = w\<lparr>cache := (cache w)(h \<mapsto> v)\<rparr>"

text \<open>\<^verbatim>\<open>res && res.success\<close>, with the fields read afterwards.\<close>

fun success_fields :: "node_result option \<Rightarrow> (jsval option \<times> jsval \<times> jsval) option" where
  "success_fields (Some (Executed True out ec lat)) = Some (out, ec, lat)"
| "success_fields _ = None"

text \<open>\<^verbatim>\<open>res?.error\<close>\<close>

fun error_field :: "node_result option \<Rightarrow> jsval option" where
  "error_field (Some (Failed e)) = Some e"
| "error_field _ = None"

subsection \<open>runPython\<close>

text \<open>The part of \<^verbatim>\<open>runPython\<close> after its \<^verbatim>\<open>try\<close>: the Pyodide fallback.\<close>

definition pyodide_fallback :: "env \<Rightarrow> world \<Rightarrow> 16 word list \<Rightarrow> string \<Rightarrow> world \<times> unit outcome" where
  "pyodide_fallback E w code h =
     (case (if pyodide_ready w then (w, None)
            else (let w1 = print_line w ''WASM Warming up...'' ''info'' in
                  case load_pyodide E of
                    LoadThrows m \<Rightarrow> (w1, Some m)
                  | PackageThrows m \<Rightarrow> (w1\<lparr>pyodide_ready := True\<rparr>, Some m)
                  | Loaded \<Rightarrow> (w1\<lparr>pyodide_ready := True\<rparr>, None))) of
        (w2, Some m) \<Rightarrow> (w2, Threw m)
      | (w2, None) \<Rightarrow>
          (case run_python E code of
             PyThrows m \<Rightarrow> (w2, Threw m)
           | PyResult r \<Rightarrow>
               (let output = (case r of None \<Rightarrow> ''Done'' | Some s \<Rightarrow> s);
                    w3 = setCache w2 h (JStr output)
                in (print_line w3 output ''success'', Ret ()))))"

definition runPython ::
  "platform \<Rightarrow> env \<Rightarrow> nodes \<Rightarrow> world \<Rightarrow> 16 word list \<Rightarrow> string \<Rightarrow> world \<times> unit outcome" where
  "runPython P E ns w code h =
     (case dispatch P E ns w ''python'' code of
        (w1, Threw m) \<Rightarrow> pyodide_fallback E w1 code h
      | (w1, Ret res) \<Rightarrow>
          (case success_fields res of
             None \<Rightarrow> pyodide_fallback E w1 code h
           | Some (out, ec, lat) \<Rightarrow>
               (let v = nullish out (JStr []);
                    w2 = setCache w1 h v
                in case print_val w2 v ''success'' of
                     Some w3 \<Rightarrow> (w3, Ret ())
                   | None \<Rightarrow> pyodide_fallback E w2 code h)))"

subsection \<open>dispatchBridge\<close>

definition fallback_text :: "platform \<Rightarrow> string \<Rightarrow> string" where
  "fallback_text P lang = ''['' @ to_upper P lang @ ''] Fallback Execution simulated.''"

definition summary_text :: "platform \<Rightarrow> string \<Rightarrow> string \<Rightarrow> string \<Rightarrow> string" where
  "summary_text P lang se so = ''['' @ to_upper P lang @ ''] Exit:'' @ se @ '' '' @ so"

text \<open>The \<^verbatim>\<open>catch (e)\<close> of \<^verbatim>\<open>dispatchBridge\<close>.\<close>

definition bridge_catch :: "platform \<Rightarrow> world \<Rightarrow> string \<Rightarrow> string \<Rightarrow> string \<Rightarrow> world" where
  "bridge_catch P w lang h msg =
     (let w1 = print_line w (''Bridge Exception: '' @ msg) ''error'';
          w2 = setCache w1 h (JStr (fallback_text P lang))
      in print_line w2 (fallback_text P lang) ''success'')"

text \<open>
  \<^verbatim>\<open>dispatchBridge(code, lang, hash)\<close>. Everything after the first print is inside its
  \<^verbatim>\<open>try\<close>, so the call itself never throws. The summary is stored before the line with
  the latency is printed.
\<close>

definition dispatchBridge ::
  "platform \<Rightarrow> env \<Rightarrow> nodes \<Rightarrow> world \<Rightarrow> 16 word list \<Rightarrow> string \<Rightarrow> string \<Rightarrow> world \<times> unit outcome" where
  "dispatchBridge P E ns w code lang h =
     (let w0 = print_line w (''Bridge: Payload '' @ lang @ '' optimized. Dispatching...'') ''dim'' in
      case dispatch P E ns w0 lang code of
        (w1, Threw m) \<Rightarrow> (bridge_catch P w1 lang h m, Ret ())
      | (w1, Ret res) \<Rightarrow>
          (case success_fields res of
             Some (out, ec, lat) \<Rightarrow>
               (case js_toString (nullish (Some ec) (JNum 0)) of
                  None \<Rightarrow> (bridge_catch P w1 lang h type_error_msg, Ret ())
                | Some se \<Rightarrow>
                   (case js_toString (nullish out (JStr [])) of
                      None \<Rightarrow> (bridge_catch P w1 lang h type_error_msg, Ret ())
                    | Some so \<Rightarrow>
                       (let summary = summary_text P lang se so;
                            w2 = setCache w1 h (JStr summary)
                        in case js_toString (nullish (Some lat) (JNum 0)) of
                             None \<Rightarrow> (bridge_catch P w2 lang h type_error_msg, Ret ())
                           | Some sl \<Rightarrow>
                               (print_line w2 (summary @ '' ['' @ sl @ ''ms]'') ''success'', Ret ()))))
           | None \<Rightarrow>
               (let err = or_default (error_field res) (JStr ''Unknown bridge error'') in
                case js_toString err of
                  None \<Rightarrow> (bridge_catch P w1 lang h type_error_msg, Ret ())
                | Some s \<Rightarrow>
                    (let w2 = print_line w1 (''Bridge Dispatch Failed: '' @ s) ''error'';
                         w3 = setCache w2 h (JStr (fallback_text P lang))
                     in (print_line w3 (fallback_text P lang) ''success'', Ret ())))))"

subsection \<open>execute\<close>

text \<open>\<^verbatim>\<open>if (cachedResult)\<close>: a stored value counts as a hit only when it is truthy.\<close>

definition cache_hit :: "jsval option \<Rightarrow> bool" where
  "cache_hit c = (case c of None \<Rightarrow> False | Some v \<Rightarrow> truthy v)"

text \<open>The \<^verbatim>\<open>switch (engine)\<close> inside the \<^verbatim>\<open>try\<close> of \<^verbatim>\<open>execute\<close>.\<close>

definition run_engine ::
  "platform \<Rightarrow> env \<Rightarrow> nodes \<Rightarrow> world \<Rightarrow> string \<Rightarrow> 16 word list \<Rightarrow> string \<Rightarrow> world \<times> unit outcome" where
  "run_engine P E ns w engine code h =
     (if engine = ''javascript'' then (w\<lparr>worker_inbox := worker_inbox w @ [code]\<rparr>, Ret ())
      else if engine = ''python'' then runPython P E ns w code h
      else if engine = ''cpp'' \<or> engine = ''rust'' then dispatchBridge P E ns w code engine h
      else (print_line w ''Runtime not found.'' ''error'', Ret ()))"

text \<open>
  \<^verbatim>\<open>AuraRunner.execute()\<close>, with the selected engine and the buffer as arguments (the
  source reads them from the page). It returns nothing: what the caller sees is the
  terminal.
\<close>

definition execute ::
  "platform \<Rightarrow> env \<Rightarrow> nodes \<Rightarrow> world \<Rightarrow> string \<Rightarrow> 16 word list \<Rightarrow> world \<times> unit outcome" where
  "execute P E ns w engine code =
     (if is_blank code then (print_line w ''Buffer empty.'' ''error'', Ret ())
      else
        (let h = codeHash P code engine;
             cachedResult = checkCache w h
         in if cache_hit cachedResult then
              (let w1 = print_line w ''Result retrieved from local cache (0ms).'' ''info'' in
               case cachedResult of
                 None \<Rightarrow> (w1, Ret ())
               | Some v \<Rightarrow>
                   (case print_val w1 v ''success'' of
                      None \<Rightarrow> (w1, Threw type_error_msg)
                    | Some w2 \<Rightarrow> (w2, Ret ())))
            else
              (let w1 = print_line w (''Offloading '' @ to_upper P engine @ '' to background thread...'') ''info'' in
               case run_engine P E ns w1 engine code h of
                 (w2, Threw m) \<Rightarrow> (print_line w2 (''Thread Exception: '' @ m) ''error'', Ret ())
               | (w2, Ret u) \<Rightarrow> (w2, Ret ()))))"

text \<open>The world a call of \<open>execute\<close> leaves behind.\<close>

abbreviation world_after ::
  "platform \<Rightarrow> env \<Rightarrow> nodes \<Rightarrow> world \<Rightarrow> string \<Rightarrow> 16 word list \<Rightarrow> world" where
  "world_after P E ns w engine code \<equiv> fst (execute P E ns w engine code)"

section \<open>Fixtures for the examples\<close>

text \<open>
  A stand-in for the browser's functions, used only where an example is evaluated: the
  theorems below hold for every platform. The examples never read a string as a number.
\<close>

definition upper_char :: "char \<Rightarrow> char" where
  "upper_char c =
     (case map_of (zip ''abcdefghijklmnopqrstuvwxyz'' ''ABCDEFGHIJKLMNOPQRSTUVWXYZ'') c of
        Some u \<Rightarrow> u
      | None \<Rightarrow> c)"

definition stub_platform :: platform where
  "stub_platform =
     \<lparr>utf8_encode = map ucast,
      sha256 = (\<lambda>bs. bs),
      string_to_number = (\<lambda>s. if s = [] \<or> s = ''0'' then Some 0 else None),
      to_upper = map upper_char\<rparr>"

definition empty_world :: world where
  "empty_world =
     \<lparr>terminal = [], cache = (\<lambda>k. None), requests = [], sleeps = [], worker_inbox = [],
      pyodide_ready = False\<rparr>"

text \<open>No backend listens and the Python code raises in Pyodide.\<close>

definition offline_env :: env where
  "offline_env =
     \<lparr>uuid = ''3f2504e0-4f89-41d3-9a0c-0305e82c3301'',
      fetch = (\<lambda>k url tmo. Rejected ''Failed to fetch''),
      load_pyodide = Loaded,
      run_python = (\<lambda>code. PyThrows ''SyntaxError: invalid syntax'')\<rparr>"

text \<open>
  The scenario of the specification: port 55003 is the only listener and answers
  \<^verbatim>\<open>{stdout: "1", exit_code: 0, latency_ms: 12}\<close>.
\<close>

definition scenario_body :: jsval where
  "scenario_body = JObj [(''stdout'', JStr ''1''), (''exit_code'', JNum 0), (''latency_ms'', JNum 12)]"

definition scenario_env :: env where
  "scenario_env =
     \<lparr>uuid = ''3f2504e0-4f89-41d3-9a0c-0305e82c3301'',
      fetch = (\<lambda>k url tmo.
                 if url = ''http://localhost:55003/execute'' then Responded 200 (Inr scenario_body)
                 else Rejected ''Failed to fetch''),
      load_pyodide = Loaded,
      run_python = (\<lambda>code. PyResult None)\<rparr>"

text \<open>The buffer \<^verbatim>\<open>print(1)\<close> as code units.\<close>

definition print_1 :: "16 word list" where
  "print_1 = [112, 114, 105, 110, 116, 40, 49, 41]"

text \<open>Whether a message contains a given text.\<close>

fun mentions :: "string \<Rightarrow> string \<Rightarrow> bool" where
  "mentions [] part = (part = [])"
| "mentions (c # cs) part = (take (length part) (c # cs) = part \<or> mentions cs part)"

section \<open>Auxiliary facts\<close>

lemma show_nat_small: "n < 10 \<Longrightarrow> show_nat n = [digit_char n]"
  by (simp add: show_nat.simps)

lemma show_nat_big: "\<not> n < 10 \<Longrightarrow> show_nat n = show_nat (n div 10) @ [digit_char (n mod 10)]"
  by (subst show_nat.simps) simp

lemmas show_nat_eval = show_nat_small show_nat_big digit_char_def

lemma handleResponse_result_indep:
  "snd (handleResponse P w d) = snd (handleResponse P w' d)"
  by (simp add: handleResponse_def split: option.splits prod.splits)

lemma handleResponse_frame:
  "requests (fst (handleResponse P w d)) = requests w"
  "sleeps (fst (handleResponse P w d)) = sleeps w"
  "cache (fst (handleResponse P w d)) = cache w"
  "worker_inbox (fst (handleResponse P w d)) = worker_inbox w"
  "pyodide_ready (fst (handleResponse P w d)) = pyodide_ready w"
  by (simp_all add: handleResponse_def print_line_def split: option.splits prod.splits)

lemma try_ports_frame:
  "cache (fst (try_ports P E path w a ports)) = cache w \<and>
   worker_inbox (fst (try_ports P E path w a ports)) = worker_inbox w \<and>
   pyodide_ready (fst (try_ports P E path w a ports)) = pyodide_ready w"
proof (induction ports arbitrary: w a)
  case Nil
  show ?case by simp
next
  case (Cons p ps)
  show ?case
  proof (cases "tryPost E (Suc a) (candidate_url p path) (attempt_timeout (Suc a))")
    case (Inl msg)
    then show ?thesis
      using Cons.IH by (simp add: Let_def print_line_def)
  next
    case (Inr body)
    then show ?thesis
      by (simp add: Let_def split_beta handleResponse_frame print_line_def)
  qed
qed

lemma try_ports_result_indep:
  "snd (try_ports P E path w a ports) = snd (try_ports P E path w' a ports)"
proof (induction ports arbitrary: w w' a)
  case Nil
  show ?case by simp
next
  case (Cons p ps)
  show ?case
  proof (cases "tryPost E (Suc a) (candidate_url p path) (attempt_timeout (Suc a))")
    case (Inl msg)
    then show ?thesis
      using Cons.IH by (simp add: Let_def)
  next
    case (Inr body)
    then show ?thesis
      using handleResponse_result_indep by (simp add: Let_def split_beta)
  qed
qed

lemma try_ports_all_fail:
  assumes "\<forall>i<length ports.
             isl (tryPost E (Suc (a + i)) (candidate_url (ports ! i) path) (attempt_timeout (Suc (a + i))))"
  shows "snd (try_ports P E path w a ports) = None \<and>
         requests (fst (try_ports P E path w a ports)) =
           requests w @ map (\<lambda>i. (candidate_url (ports ! i) path, attempt_timeout (Suc (a + i)))) [0..<length ports] \<and>
         sleeps (fst (try_ports P E path w a ports)) =
           sleeps w @ map (\<lambda>i. attempt_delay (Suc (a + i))) [0..<length ports]"
  using assms
proof (induction ports arbitrary: w a)
  case Nil
  show ?case by simp
next
  case (Cons p ps)
  from Cons.prems have "isl (tryPost E (Suc a) (candidate_url p path) (attempt_timeout (Suc a)))"
    by fastforce
  then obtain msg where msg: "tryPost E (Suc a) (candidate_url p path) (attempt_timeout (Suc a)) = Inl msg"
    by (auto simp: isl_def)
  have rest: "\<forall>i<length ps.
      isl (tryPost E (Suc (Suc a + i)) (candidate_url (ps ! i) path) (attempt_timeout (Suc (Suc a + i))))"
  proof (intro allI impI)
    fix i assume "i < length ps"
    then have "Suc i < length (p # ps)" by simp
    with Cons.prems
    have "isl (tryPost E (Suc (a + Suc i)) (candidate_url ((p # ps) ! Suc i) path) (attempt_timeout (Suc (a + Suc i))))"
      by blast
    then show "isl (tryPost E (Suc (Suc a + i)) (candidate_url (ps ! i) path) (attempt_timeout (Suc (Suc a + i))))"
      by simp
  qed
  show ?case
    using msg Cons.IH [OF rest]
    by (simp add: Let_def print_line_def map_upt_Suc del: upt_Suc)
qed

lemma try_ports_first_success:
  assumes "k < length ports"
    and "\<forall>i<k. isl (tryPost E (Suc (a + i)) (candidate_url (ports ! i) path) (attempt_timeout (Suc (a + i))))"
    and "tryPost E (Suc (a + k)) (candidate_url (ports ! k) path) (attempt_timeout (Suc (a + k))) = Inr body"
  shows "snd (try_ports P E path w a ports) = Some (snd (handleResponse P w body)) \<and>
         requests (fst (try_ports P E path w a ports)) =
           requests w @ map (\<lambda>i. (candidate_url (ports ! i) path, attempt_timeout (Suc (a + i)))) [0..<Suc k] \<and>
         sleeps (fst (try_ports P E path w a ports)) =
           sleeps w @ map (\<lambda>i. attempt_delay (Suc (a + i))) [0..<k]"
  using assms
proof (induction ports arbitrary: w a k)
  case Nil
  then show ?case by simp
next
  case (Cons p ps)
  show ?case
  proof (cases k)
    case 0
    with Cons.prems have "tryPost E (Suc a) (candidate_url p path) (attempt_timeout (Suc a)) = Inr body"
      by simp
    then show ?thesis
      using 0 handleResponse_result_indep [of P _ body w]
      by (simp add: Let_def split_beta handleResponse_frame print_line_def)
  next
    case (Suc j)
    with Cons.prems have "isl (tryPost E (Suc (a + 0)) (candidate_url ((p # ps) ! 0) path) (attempt_timeout (Suc (a + 0))))"
      by blast
    then obtain msg where msg: "tryPost E (Suc a) (candidate_url p path) (attempt_timeout (Suc a)) = Inl msg"
      by (auto simp: isl_def)
    have j: "j < length ps" using Cons.prems(1) Suc by simp
    have fails: "\<forall>i<j. isl (tryPost E (Suc (Suc a + i)) (candidate_url (ps ! i) path) (attempt_timeout (Suc (Suc a + i))))"
    proof (intro allI impI)
      fix i assume "i < j"
      then have "Suc i < k" using Suc by simp
      with Cons.prems(2)
      have "isl (tryPost E (Suc (a + Suc i)) (candidate_url ((p # ps) ! Suc i) path) (attempt_timeout (Suc (a + Suc i))))"
        by blast
      then show "isl (tryPost E (Suc (Suc a + i)) (candidate_url (ps ! i) path) (attempt_timeout (Suc (Suc a + i))))"
        by simp
    qed
    have hit: "tryPost E (Suc (Suc a + j)) (candidate_url (ps ! j) path) (attempt_timeout (Suc (Suc a + j))) = Inr body"
      using Cons.prems(3) Suc by simp
    note IH = Cons.IH [OF j fails hit]
    show ?thesis
      using msg IH handleResponse_result_indep [of P _ body w] Suc
      by (simp add: Let_def print_line_def map_upt_Suc del: upt_Suc)
  qed
qed

lemma dispatch_frame:
  "cache (fst (dispatch P E ns w lang source)) = cache w \<and>
   worker_inbox (fst (dispatch P E ns w lang source)) = worker_inbox w \<and>
   pyodide_ready (fst (dispatch P E ns w lang source)) = pyodide_ready w"
  by (simp add: dispatch_def Let_def split_beta try_ports_frame print_line_def
           split: option.splits node_entry.splits)

lemma dispatch_result_indep:
  "snd (dispatch P E ns w lang source) = snd (dispatch P E ns w' lang source)"
proof (cases "is_latin1 source")
  case False
  then show ?thesis by (simp add: dispatch_def)
next
  case True
  show ?thesis
  proof (cases "resolve_ports ns lang")
    case None
    with True show ?thesis by (simp add: dispatch_def)
  next
    case (Some e)
    show ?thesis
    proof (cases e)
      case (Inherited len)
      with True Some show ?thesis by (simp add: dispatch_def)
    next
      case (PortList ports)
      define res where "res = snd (try_ports P E (request_path lang) w 0 ports)"
      have "snd (try_ports P E (request_path lang) w1 0 ports) = res" for w1
        unfolding res_def by (rule try_ports_result_indep)
      with True Some PortList show ?thesis
        by (simp add: dispatch_def Let_def split_beta split: option.splits)
    qed
  qed
qed

lemma dispatch_all_fail:
  assumes "is_latin1 source"
    and "resolve_ports ns lang = Some (PortList ports)"
    and "\<forall>i<length ports.
           isl (tryPost E (Suc i) (candidate_url (ports ! i) (request_path lang)) (attempt_timeout (Suc i)))"
  shows "snd (dispatch P E ns w lang source) = Ret (Some (Failed (JStr (no_ports_error lang)))) \<and>
         requests (fst (dispatch P E ns w lang source)) =
           requests w @ map (\<lambda>i. (candidate_url (ports ! i) (request_path lang), attempt_timeout (Suc i))) [0..<length ports] \<and>
         sleeps (fst (dispatch P E ns w lang source)) =
           sleeps w @ map (\<lambda>i. attempt_delay (Suc i)) [0..<length ports] \<and>
         last (terminal (fst (dispatch P E ns w lang source))) = (all_failed_line P (length ports) lang, ''error'')"
proof -
  have "\<forall>i<length ports.
           isl (tryPost E (Suc (0 + i)) (candidate_url (ports ! i) (request_path lang)) (attempt_timeout (Suc (0 + i))))"
    using assms(3) by simp
  note loop = try_ports_all_fail [OF this]
  show ?thesis
    using assms(1,2) loop
    by (simp add: dispatch_def Let_def split_beta print_line_def)
qed

lemma dispatch_first_success:
  assumes "is_latin1 source"
    and "resolve_ports ns lang = Some (PortList ports)"
    and "k < length ports"
    and "\<forall>i<k. isl (tryPost E (Suc i) (candidate_url (ports ! i) (request_path lang)) (attempt_timeout (Suc i)))"
    and "tryPost E (Suc k) (candidate_url (ports ! k) (request_path lang)) (attempt_timeout (Suc k)) = Inr body"
  shows "snd (dispatch P E ns w lang source) = Ret (snd (handleResponse P w body)) \<and>
         requests (fst (dispatch P E ns w lang source)) =
           requests w @ map (\<lambda>i. (candidate_url (ports ! i) (request_path lang), attempt_timeout (Suc i))) [0..<Suc k] \<and>
         sleeps (fst (dispatch P E ns w lang source)) =
           sleeps w @ map (\<lambda>i. attempt_delay (Suc i)) [0..<k]"
proof -
  have fails: "\<forall>i<k. isl (tryPost E (Suc (0 + i)) (candidate_url (ports ! i) (request_path lang)) (attempt_timeout (Suc (0 + i))))"
    using assms(4) by simp
  have hit: "tryPost E (Suc (0 + k)) (candidate_url (ports ! k) (request_path lang)) (attempt_timeout (Suc (0 + k))) = Inr body"
    using assms(5) by simp
  note loop = try_ports_first_success [OF assms(3) fails hit]
  show ?thesis
    using assms(1,2) loop handleResponse_result_indep [of P _ body w]
    by (simp add: dispatch_def Let_def split_beta print_line_def del: upt_Suc)
qed

lemma try_ports_some_result:
  assumes "\<And>k url t st b. fetch E k url t = Responded st (Inr b) \<Longrightarrow> is_object b"
  shows "snd (try_ports P E path w a ports) \<noteq> Some None"
proof (induction ports arbitrary: w a)
  case Nil
  show ?case by simp
next
  case (Cons p ps)
  show ?case
  proof (cases "tryPost E (Suc a) (candidate_url p path) (attempt_timeout (Suc a))")
    case (Inl msg)
    then show ?thesis
      using Cons.IH by (simp add: Let_def)
  next
    case (Inr body)
    then have "is_object body"
      using assms by (auto simp: tryPost_def split: fetch_result.splits if_splits)
    then show ?thesis
      using Inr by (simp add: Let_def split_beta handleResponse_def split: option.splits)
  qed
qed

lemma dispatch_returns:
  assumes "is_latin1 source" and "resolve_ports ns lang = Some (PortList ports)"
  shows "\<exists>r. snd (dispatch P E ns w lang source) = Ret r"
  using assms by (simp add: dispatch_def Let_def split_beta split: option.splits)

lemma mentions_prefix: "mentions (b @ c) b"
proof (cases "b @ c")
  case Nil
  then show ?thesis by simp
next
  case (Cons x xs)
  have "take (length b) (b @ c) = b" by simp
  then show ?thesis unfolding Cons by simp
qed

lemma mentions_middle: "mentions (a @ b @ c) b"
  by (induction a) (auto simp: mentions_prefix)

lemma print_1_latin1: "is_latin1 print_1"
  by (simp add: is_latin1_def print_1_def)

lemma resolve_python: "resolve_ports AuraComm_nodes ''python'' = Some (PortList (map (\<lambda>i. 55000 + i) [0..<10]))"
  by (simp add: resolve_ports_def nodes_get_def AuraComm_nodes_def)

lemma resolve_cpp: "resolve_ports AuraComm_nodes ''cpp'' = Some (PortList (map (\<lambda>i. 56000 + i) [0..<10]))"
  by (simp add: resolve_ports_def nodes_get_def AuraComm_nodes_def)

lemma offline_fails: "isl (tryPost offline_env k url tmo)"
  by (simp add: tryPost_def offline_env_def)

lemma scenario_bodies_are_objects:
  "fetch scenario_env k url tmo = Responded st (Inr b) \<Longrightarrow> is_object b"
  by (auto simp: scenario_env_def scenario_body_def split: if_splits)

lemma upt_10: "[0..<10] = [0, 1, 2, 3, 4, 5, 6, 7, 8, 9::nat]"
  by (simp add: upt_conv_Cons)

lemma resolve_empty: "resolve_ports [(''cpp'', [])] ''cpp'' = Some (PortList [])"
  by (simp add: resolve_ports_def nodes_get_def)

lemma scenario_hit:
  "tryPost scenario_env k ''http://localhost:55003/execute'' tmo = Inr scenario_body"
  by (simp add: tryPost_def scenario_env_def)

lemma scenario_miss:
  "url \<noteq> ''http://localhost:55003/execute'' \<Longrightarrow> isl (tryPost scenario_env k url tmo)"
  by (simp add: tryPost_def scenario_env_def)

lemma summary_nonempty: "summary_text P lang se so \<noteq> []"
  by (simp add: summary_text_def)

lemma fallback_nonempty: "fallback_text P lang \<noteq> []"
  by (simp add: fallback_text_def)

lemma bridge_catch_facts:
  "cache (bridge_catch P w lang h msg) = (cache w)(h \<mapsto> JStr (fallback_text P lang))"
  "last (terminal (bridge_catch P w lang h msg)) = (fallback_text P lang, ''success'')"
  "requests (bridge_catch P w lang h msg) = requests w"
  by (simp_all add: bridge_catch_def Let_def print_line_def setCache_def)

text \<open>What \<open>dispatchBridge\<close> leaves in the store, by the dispatcher's result.\<close>

lemma dispatchBridge_returns: "snd (dispatchBridge P E ns w code lang h) = Ret ()"
  by (simp add: dispatchBridge_def Let_def split_beta
           split: outcome.splits option.splits prod.splits)

lemma dispatchBridge_stores_text:
  "\<exists>s. s \<noteq> [] \<and> cache (fst (dispatchBridge P E ns w code lang h)) h = Some (JStr s)"
proof -
  obtain w1 r where d: "dispatch P E ns
      (print_line w (''Bridge: Payload '' @ lang @ '' optimized. Dispatching...'') ''dim'') lang code = (w1, r)"
    by (cases "dispatch P E ns
      (print_line w (''Bridge: Payload '' @ lang @ '' optimized. Dispatching...'') ''dim'') lang code")
  show ?thesis
    using d summary_nonempty [of P lang] fallback_nonempty [of P lang]
    by (auto simp: dispatchBridge_def Let_def bridge_catch_facts print_line_def setCache_def
             split: outcome.splits option.splits)
qed

lemma dispatchBridge_success:
  assumes "snd (dispatch P E ns w lang code) = Ret (Some (Executed True out ec lat))"
    and "js_toString (nullish (Some ec) (JNum 0)) = Some se"
    and "js_toString (nullish out (JStr [])) = Some so"
    and "js_toString (nullish (Some lat) (JNum 0)) = Some sl"
  shows "cache (fst (dispatchBridge P E ns w' code lang h)) h = Some (JStr (summary_text P lang se so)) \<and>
         last (terminal (fst (dispatchBridge P E ns w' code lang h)))
           = (summary_text P lang se so @ '' ['' @ sl @ ''ms]'', ''success'')"
proof -
  obtain w1 r where d: "dispatch P E ns
      (print_line w' (''Bridge: Payload '' @ lang @ '' optimized. Dispatching...'') ''dim'') lang code = (w1, r)"
    by (cases "dispatch P E ns
      (print_line w' (''Bridge: Payload '' @ lang @ '' optimized. Dispatching...'') ''dim'') lang code")
  have "r = Ret (Some (Executed True out ec lat))"
    using d assms(1) dispatch_result_indep [of P E ns w lang code
      "print_line w' (''Bridge: Payload '' @ lang @ '' optimized. Dispatching...'') ''dim''"]
    by simp
  then show ?thesis
    using d assms(2-4)
    by (simp add: dispatchBridge_def Let_def print_line_def setCache_def)
qed

lemma dispatchBridge_failure:
  assumes "\<And>out ec lat. snd (dispatch P E ns w lang code) \<noteq> Ret (Some (Executed True out ec lat))"
  shows "cache (fst (dispatchBridge P E ns w' code lang h)) h = Some (JStr (fallback_text P lang)) \<and>
         last (terminal (fst (dispatchBridge P E ns w' code lang h)))
           = (fallback_text P lang, ''success'')"
proof -
  obtain w1 r where d: "dispatch P E ns
      (print_line w' (''Bridge: Payload '' @ lang @ '' optimized. Dispatching...'') ''dim'') lang code = (w1, r)"
    by (cases "dispatch P E ns
      (print_line w' (''Bridge: Payload '' @ lang @ '' optimized. Dispatching...'') ''dim'') lang code")
  have r: "r \<noteq> Ret (Some (Executed True out ec lat))" for out ec lat
    using d assms [of out ec lat] dispatch_result_indep [of P E ns w lang code
      "print_line w' (''Bridge: Payload '' @ lang @ '' optimized. Dispatching...'') ''dim''"]
    by auto
  have nosucc: "success_fields res = None" if "r = Ret res" for res
  proof (cases res)
    case None
    then show ?thesis by simp
  next
    case (Some nr)
    show ?thesis
    proof (cases nr)
      case (Executed ok out ec lat)
      with r [of out ec lat] that Some show ?thesis by (cases ok) auto
    next
      case (Failed e)
      with Some show ?thesis by simp
    qed
  qed
  show ?thesis
  proof (cases r)
    case (Threw m)
    with d show ?thesis
      by (simp add: dispatchBridge_def Let_def bridge_catch_facts)
  next
    case (Ret res)
    with d nosucc [OF Ret] show ?thesis
      by (simp add: dispatchBridge_def Let_def bridge_catch_facts print_line_def setCache_def
               split: option.splits)
  qed
qed

lemma success_fields_None:
  assumes "\<And>out ec lat. r \<noteq> Ret (Some (Executed True out ec lat))" and "r = Ret res"
  shows "success_fields res = None"
proof (cases res)
  case None
  then show ?thesis by simp
next
  case (Some nr)
  show ?thesis
  proof (cases nr)
    case (Executed ok out ec lat)
    with assms(1) [of out ec lat] assms(2) Some show ?thesis by (cases ok) auto
  next
    case (Failed e)
    with Some show ?thesis by simp
  qed
qed

lemma pyodide_fallback_result:
  assumes "pyodide_ready w \<or> load_pyodide E = Loaded"
    and "run_python E code = PyResult pr"
  shows "snd (pyodide_fallback E w code h) = Ret () \<and>
         cache (fst (pyodide_fallback E w code h)) h
           = Some (JStr (case pr of None \<Rightarrow> ''Done'' | Some s \<Rightarrow> s)) \<and>
         last (terminal (fst (pyodide_fallback E w code h)))
           = (case pr of None \<Rightarrow> ''Done'' | Some s \<Rightarrow> s, ''success'') \<and>
         requests (fst (pyodide_fallback E w code h)) = requests w"
  using assms
  by (auto simp: pyodide_fallback_def Let_def print_line_def setCache_def)


lemma runPython_success:
  assumes "snd (dispatch P E ns w ''python'' code) = Ret (Some (Executed True out ec lat))"
    and "js_toString (nullish out (JStr [])) = Some s"
  shows "snd (runPython P E ns w' code h) = Ret () \<and>
         cache (fst (runPython P E ns w' code h)) h = Some (nullish out (JStr [])) \<and>
         last (terminal (fst (runPython P E ns w' code h))) = (s, ''success'') \<and>
         requests (fst (runPython P E ns w' code h)) = requests (fst (dispatch P E ns w' ''python'' code))"
proof -
  obtain w1 r where d: "dispatch P E ns w' ''python'' code = (w1, r)"
    by (cases "dispatch P E ns w' ''python'' code")
  have "r = Ret (Some (Executed True out ec lat))"
    using d assms(1) dispatch_result_indep [of P E ns w "''python''" code w'] by simp
  then show ?thesis
    using d assms(2)
    by (simp add: runPython_def Let_def print_val_def print_line_def setCache_def)
qed

lemma runPython_failure:
  assumes "\<And>out ec lat. snd (dispatch P E ns w ''python'' code) \<noteq> Ret (Some (Executed True out ec lat))"
  shows "runPython P E ns w' code h = pyodide_fallback E (fst (dispatch P E ns w' ''python'' code)) code h"
proof -
  obtain w1 r where d: "dispatch P E ns w' ''python'' code = (w1, r)"
    by (cases "dispatch P E ns w' ''python'' code")
  have r: "r \<noteq> Ret (Some (Executed True out ec lat))" for out ec lat
    using d assms [of out ec lat] dispatch_result_indep [of P E ns w "''python''" code w']
    by auto
  show ?thesis
  proof (cases r)
    case (Threw m)
    with d show ?thesis by (simp add: runPython_def)
  next
    case (Ret res)
    with d success_fields_None [of r res, OF r Ret] show ?thesis
      by (simp add: runPython_def)
  qed
qed

lemma execute_miss:
  assumes "\<not> is_blank code" and "\<not> cache_hit (checkCache w (codeHash P code engine))"
  shows "execute P E ns w engine code =
          (case run_engine P E ns
                  (print_line w (''Offloading '' @ to_upper P engine @ '' to background thread...'') ''info'')
                  engine code (codeHash P code engine) of
             (w2, Threw m) \<Rightarrow> (print_line w2 (''Thread Exception: '' @ m) ''error'', Ret ())
           | (w2, Ret u) \<Rightarrow> (w2, Ret ()))"
  unfolding execute_def Let_def if_not_P [OF assms(1)] if_not_P [OF assms(2)]
  by (rule refl)

lemma execute_hit:
  assumes "\<not> is_blank code" and "cache w (codeHash P code engine) = Some (JStr s)" and "s \<noteq> []"
  shows "execute P E ns w engine code =
           (w\<lparr>terminal := terminal w @
                 [(''Result retrieved from local cache (0ms).'', ''info''), (s, ''success'')]\<rparr>,
            Ret ())"
  using assms
  by (simp add: execute_def Let_def checkCache_def cache_hit_def print_val_def print_line_def)

lemma execute_miss_returned:
  assumes "\<not> is_blank code" and "\<not> cache_hit (checkCache w (codeHash P code engine))"
    and "snd (run_engine P E ns
                  (print_line w (''Offloading '' @ to_upper P engine @ '' to background thread...'') ''info'')
                  engine code (codeHash P code engine)) = Ret ()"
  shows "fst (execute P E ns w engine code) =
         fst (run_engine P E ns
                  (print_line w (''Offloading '' @ to_upper P engine @ '' to background thread...'') ''info'')
                  engine code (codeHash P code engine))"
  using assms(3) unfolding execute_miss [OF assms(1,2)]
  by (simp add: split_beta split: outcome.splits)

lemma run_engine_bridge:
  assumes "engine = ''cpp'' \<or> engine = ''rust''"
  shows "run_engine P E ns w engine code h = dispatchBridge P E ns w code engine h"
  using assms by (auto simp: run_engine_def)

lemma run_engine_python:
  "run_engine P E ns w ''python'' code h = runPython P E ns w code h"
  by (simp add: run_engine_def)

lemma print_1_not_blank: "\<not> is_blank print_1"
  by (simp add: is_blank_def print_1_def is_js_space_def)

lemma empty_world_miss: "\<not> cache_hit (checkCache empty_world h)"
  by (simp add: cache_hit_def checkCache_def empty_world_def)

lemma resolve_rust: "resolve_ports AuraComm_nodes ''rust'' = Some (PortList (map (\<lambda>i. 58000 + i) [0..<10]))"
  by (simp add: resolve_ports_def nodes_get_def AuraComm_nodes_def)

lemma offline_dispatch:
  assumes "is_latin1 source" and "resolve_ports ns lang = Some (PortList ports)"
  shows "snd (dispatch P offline_env ns w lang source) = Ret (Some (Failed (JStr (no_ports_error lang)))) \<and>
         length (requests (fst (dispatch P offline_env ns w lang source))) = length (requests w) + length ports"
proof -
  have "\<forall>i<length ports.
      isl (tryPost offline_env (Suc i) (candidate_url (ports ! i) (request_path lang)) (attempt_timeout (Suc i)))"
    using offline_fails by blast
  from dispatch_all_fail [OF assms this, of P w] show ?thesis by simp
qed

lemma scenario_dispatch:
  "snd (dispatch P scenario_env AuraComm_nodes w ''python'' print_1)
     = Ret (Some (Executed True (Some (JStr ''1'')) (JNum 0) (JNum 12))) \<and>
   length (requests (fst (dispatch P scenario_env AuraComm_nodes w ''python'' print_1)))
     = length (requests w) + 4"
proof -
  let ?ports = "map (\<lambda>i. 55000 + i) [0..<10]"
  have k: "Suc (Suc (Suc 0)) < length ?ports" by simp
  have fails: "\<forall>i<Suc (Suc (Suc 0)).
      isl (tryPost scenario_env (Suc i) (candidate_url (?ports ! i) (request_path ''python''))
             (attempt_timeout (Suc i)))"
    by (simp add: All_less_Suc scenario_miss candidate_url_def request_path_def show_nat_eval upt_10)
  have hit: "tryPost scenario_env (Suc (Suc (Suc (Suc 0))))
      (candidate_url (?ports ! Suc (Suc (Suc 0))) (request_path ''python''))
      (attempt_timeout (Suc (Suc (Suc (Suc 0))))) = Inr scenario_body"
    by (simp add: scenario_hit candidate_url_def request_path_def show_nat_eval upt_10)
  from dispatch_first_success [OF print_1_latin1 resolve_python k fails hit, of P w]
  show ?thesis
    by (simp add: scenario_body_def handleResponse_def handle_body_def has_prop_def
          nullish_def show_int_def show_nat_eval)
qed

lemma execute_bridge_world:
  assumes "\<not> is_blank code" and "\<not> cache_hit (checkCache w (codeHash P code engine))"
    and "engine = ''cpp'' \<or> engine = ''rust''"
  shows "world_after P E ns w engine code
           = fst (dispatchBridge P E ns
                    (print_line w (''Offloading '' @ to_upper P engine @ '' to background thread...'') ''info'')
                    code engine (codeHash P code engine))"
  using execute_miss_returned [OF assms(1,2), where E = E and ns = ns]
  by (simp only: run_engine_bridge [OF assms(3)] dispatchBridge_returns)

lemma execute_python_world:
  assumes "\<not> is_blank code" and "\<not> cache_hit (checkCache w (codeHash P code ''python''))"
    and "snd (runPython P E ns
                (print_line w (''Offloading '' @ to_upper P ''python'' @ '' to background thread...'') ''info'')
                code (codeHash P code ''python'')) = Ret ()"
  shows "world_after P E ns w ''python'' code
           = fst (runPython P E ns
                    (print_line w (''Offloading '' @ to_upper P ''python'' @ '' to background thread...'') ''info'')
                    code (codeHash P code ''python''))"
  using execute_miss_returned [OF assms(1,2), where E = E and ns = ns] assms(3)
  by (simp only: run_engine_python)



lemma offline_cpp_first_call:
  assumes "\<not> is_blank code" and "is_latin1 code"
    and "\<not> cache_hit (checkCache w (codeHash P code ''cpp''))"
  shows "cache (world_after P offline_env AuraComm_nodes w ''cpp'' code) (codeHash P code ''cpp'')
           = Some (JStr (fallback_text P ''cpp''))"
proof -
  let ?h = "codeHash P code ''cpp''"
  let ?w0 = "print_line w (''Offloading '' @ to_upper P ''cpp'' @ '' to background thread...'') ''info''"
  have nosucc: "snd (dispatch P offline_env AuraComm_nodes w ''cpp'' code)
      \<noteq> Ret (Some (Executed True out ec lat))" for out ec lat
    using offline_dispatch [OF assms(2) resolve_cpp, of P w] by simp
  have e: "''cpp'' = ''cpp'' \<or> ''cpp'' = ''rust''" by simp
  show ?thesis
    unfolding execute_bridge_world [OF assms(1,3) e]
    using dispatchBridge_failure [of P offline_env AuraComm_nodes w "''cpp''" code ?w0 ?h, OF nosucc]
    by blast
qed

section \<open>The resolver\<close>

text \<open>
  C8: the three configured engines each have ten contiguous ports, paired with
  \<^verbatim>\<open>/execute\<close> for python and \<^verbatim>\<open>/bridge\<close> for cpp and rust. For an engine name
  outside the table, such as csharp, the ports are those of python, but the path is chosen
  from the name asked for, so the endpoints probed are \<^verbatim>\<open>http://localhost:55000/bridge\<close>
  and so on: not the candidate list of the python engine, whose node is reached under
  \<^verbatim>\<open>/execute\<close>.
\<close>

theorem unknown_engine_candidates:
  "candidates AuraComm_nodes ''python'' = Some (map (\<lambda>i. (55000 + i, ''/execute'')) [0..<10]) \<and>
   candidates AuraComm_nodes ''cpp'' = Some (map (\<lambda>i. (56000 + i, ''/bridge'')) [0..<10]) \<and>
   candidates AuraComm_nodes ''rust'' = Some (map (\<lambda>i. (58000 + i, ''/bridge'')) [0..<10]) \<and>
   candidates AuraComm_nodes ''csharp'' = Some (map (\<lambda>i. (55000 + i, ''/bridge'')) [0..<10]) \<and>
   candidates AuraComm_nodes ''csharp'' \<noteq> candidates AuraComm_nodes ''python''"
  by (simp add: candidates_def resolve_ports_def nodes_get_def AuraComm_nodes_def
        object_prototype_def request_path_def upt_10)

section \<open>The normalizer\<close>

text \<open>
  C3 asks that the normalizer returns a failed result for every body, non-object bodies
  included. For an object that matches no shape it does (the error is
  \<^verbatim>\<open>Unknown node response\<close>), and a conversion that raises is caught; but for a body that is
  a number, a string or null the \<^verbatim>\<open>if\<close> is skipped and the function ends without a
  \<^verbatim>\<open>return\<close>: the caller gets \<^verbatim>\<open>undefined\<close>.
\<close>

theorem handleResponse_non_object_undefined:
  "handleResponse P w (JNum 42) = (w, None) \<and>
   handleResponse P w (JStr ''ok'') = (w, None) \<and>
   handleResponse P w JNull = (w, None) \<and>
   snd (handleResponse P w (JObj [(''foo'', JNum 1)])) = Some (Failed (JStr ''Unknown node response''))"
  by (simp add: handleResponse_def handle_body_def has_prop_def or_default_def js_or_def nullish_def)

text \<open>
  C7, as stated, makes success equivalent to the exit code being zero for every body with
  an output and an exit-code field. The code tests \<^verbatim>\<open>Number(data.exit_code) === 0\<close>, and
  \<^verbatim>\<open>Number(null)\<close> is 0: the body \<^verbatim>\<open>{"stdout": "", "exit_code": null}\<close> is reported as a
  success, with the exit code null in the result.
\<close>

theorem null_exit_code_is_success:
  "snd (handleResponse stub_platform empty_world (JObj [(''stdout'', JStr []), (''exit_code'', JNull)]))
     = Some (Executed True (Some (JStr [])) JNull (JNum 0))"
  by (simp add: handleResponse_def handle_body_def has_prop_def nullish_def)

text \<open>
  C7, amended: for every body with an output field and an exit-code field whose exit code
  and latency can be written into the log line (every value can, except an object or array
  holding a property named \<^verbatim>\<open>toString\<close>), the result is a success exactly when
  \<^verbatim>\<open>Number(exit_code) === 0\<close>; for a number that is: exactly when the exit code is zero.
  The result carries the output and the exit code as received, and the latency, which is 0
  when the field is absent or null. Nothing is assumed about \<^verbatim>\<open>status\<close>, \<^verbatim>\<open>error\<close> or
  \<^verbatim>\<open>message\<close>: this shape is tested first.
\<close>

theorem exit_code_shape_first:
  assumes "get_prop data ''stdout'' = Some out"
    and "get_prop data ''exit_code'' = Some ec"
    and "js_toString ec \<noteq> None"
    and "js_toString (nullish (get_prop data ''latency_ms'') (JNum 0)) \<noteq> None"
  shows "snd (handleResponse P w data)
           = Some (Executed (number_is_zero P ec = Some True) (Some out) ec
                     (nullish (get_prop data ''latency_ms'') (JNum 0))) \<and>
         (\<forall>n. ec = JNum n \<longrightarrow> (number_is_zero P ec = Some True) = (n = 0)) \<and>
         (get_prop data ''latency_ms'' = None \<or> get_prop data ''latency_ms'' = Some JNull
            \<longrightarrow> nullish (get_prop data ''latency_ms'') (JNum 0) = JNum 0)"
proof -
  have obj: "is_object data"
    using assms(1) by (cases data) simp_all
  have z: "number_is_zero P ec \<noteq> None"
    using assms(3) by (cases ec) (auto split: option.splits if_splits)
  show ?thesis
    using assms obj z
    by (auto simp: handleResponse_def handle_body_def has_prop_def nullish_def)
qed

theorem exit_code_shape_first_witness:
  "snd (handleResponse stub_platform empty_world
          (JObj [(''status'', JStr ''success''), (''error'', JStr ''boom''),
                 (''stdout'', JStr ''x''), (''exit_code'', JNum 1)]))
     = Some (Executed False (Some (JStr ''x'')) (JNum 1) (JNum 0)) \<and>
   snd (handleResponse stub_platform empty_world
          (JObj [(''message'', JStr ''m''), (''stdout'', JStr ''x''), (''exit_code'', JNum 0),
                 (''latency_ms'', JNum 12)]))
     = Some (Executed True (Some (JStr ''x'')) (JNum 0) (JNum 12))"
  using
    exit_code_shape_first [of "JObj [(''status'', JStr ''success''), (''error'', JStr ''boom''),
                 (''stdout'', JStr ''x''), (''exit_code'', JNum 1)]" "JStr ''x''" "JNum 1"
                 stub_platform empty_world]
    exit_code_shape_first [of "JObj [(''message'', JStr ''m''), (''stdout'', JStr ''x''), (''exit_code'', JNum 0),
                 (''latency_ms'', JNum 12)]" "JStr ''x''" "JNum 0" stub_platform empty_world]
  by (simp add: nullish_def)

section \<open>The dispatcher\<close>

text \<open>
  C2, as stated, asks that \<open>dispatch\<close> never throws, for every engine name and every
  source. The payload is encoded before any \<^verbatim>\<open>try\<close>: a source with a code unit above
  255 (here the single character U+03C0) makes \<^verbatim>\<open>btoa\<close> raise, and the exception leaves
  \<open>dispatch\<close> with nothing printed or sent.
\<close>

theorem dispatch_throws_on_wide_source:
  "dispatch stub_platform offline_env AuraComm_nodes empty_world ''python'' [960]
     = (empty_world,
        Threw ''The string to be encoded contains characters outside of the Latin1 range.'')"
  by (simp add: dispatch_def is_latin1_def btoa_error_msg_def)

text \<open>
  C2, amended: for a source within Latin-1 and an engine name that resolves to a port list,
  \<open>dispatch\<close> returns and does not throw, whatever the network does. When every body a
  backend answers with is an object or an array, what it returns is a result object; and
  when every attempt ends in a connection error or timeout (a rejected fetch), a status
  outside 200..299 or a malformed body, it is the failed result whose error is
  \<^verbatim>\<open>No available <lang> node ports\<close>.
\<close>

theorem dispatch_returns_result:
  assumes "is_latin1 source"
    and "resolve_ports ns lang = Some (PortList ports)"
  shows "(\<exists>r. snd (dispatch P E ns w lang source) = Ret r) \<and>
         ((\<forall>k url tmo st b. fetch E k url tmo = Responded st (Inr b) \<longrightarrow> is_object b) \<longrightarrow>
            (\<exists>r. snd (dispatch P E ns w lang source) = Ret (Some r))) \<and>
         ((\<forall>k url tmo.
              (\<exists>m. fetch E k url tmo = Rejected m) \<or>
              (\<exists>st b. fetch E k url tmo = Responded st b \<and> (st < 200 \<or> 299 < st \<or> isl b))) \<longrightarrow>
            snd (dispatch P E ns w lang source)
              = Ret (Some (Failed (JStr (''No available '' @ lang @ '' node ports'')))))"
proof (intro conjI impI)
  show "\<exists>r. snd (dispatch P E ns w lang source) = Ret r"
    using assms by (rule dispatch_returns)
next
  assume objs: "\<forall>k url tmo st b. fetch E k url tmo = Responded st (Inr b) \<longrightarrow> is_object b"
  then have ne: "snd (try_ports P E path w' 0 ports) \<noteq> Some None" for path w'
    by (intro try_ports_some_result) blast
  show "\<exists>r. snd (dispatch P E ns w lang source) = Ret (Some r)"
    using assms
    by (auto simp: dispatch_def Let_def split_beta split: option.splits)
       (metis ne not_None_eq)
next
  assume fails: "\<forall>k url tmo.
              (\<exists>m. fetch E k url tmo = Rejected m) \<or>
              (\<exists>st b. fetch E k url tmo = Responded st b \<and> (st < 200 \<or> 299 < st \<or> isl b))"
  have "isl (tryPost E k url tmo)" for k url tmo
    using fails [rule_format, of k url tmo]
    by (auto simp: tryPost_def)
  then have "\<forall>i<length ports.
      isl (tryPost E (Suc i) (candidate_url (ports ! i) (request_path lang)) (attempt_timeout (Suc i)))"
    by blast
  from dispatch_all_fail [OF assms this]
  show "snd (dispatch P E ns w lang source)
          = Ret (Some (Failed (JStr (''No available '' @ lang @ '' node ports''))))"
    by (simp add: no_ports_error_def)
qed

theorem dispatch_returns_result_witness:
  "is_latin1 print_1 \<and>
   resolve_ports AuraComm_nodes ''python'' = Some (PortList (map (\<lambda>i. 55000 + i) [0..<10])) \<and>
   (\<exists>r. snd (dispatch stub_platform scenario_env AuraComm_nodes empty_world ''python'' print_1)
          = Ret (Some r)) \<and>
   snd (dispatch stub_platform offline_env AuraComm_nodes empty_world ''python'' print_1)
     = Ret (Some (Failed (JStr ''No available python node ports'')))"
proof -
  note a = dispatch_returns_result [OF print_1_latin1 resolve_python,
      of stub_platform scenario_env empty_world]
  note b = dispatch_returns_result [OF print_1_latin1 resolve_python,
      of stub_platform offline_env empty_world]
  have objs: "\<forall>k url tmo st b. fetch scenario_env k url tmo = Responded st (Inr b) \<longrightarrow> is_object b"
    using scenario_bodies_are_objects by blast
  have down: "\<forall>k url tmo.
      (\<exists>m. fetch offline_env k url tmo = Rejected m) \<or>
      (\<exists>st b. fetch offline_env k url tmo = Responded st b \<and> (st < 200 \<or> 299 < st \<or> isl b))"
    by (simp add: offline_env_def)
  show ?thesis
    using a b objs down print_1_latin1 resolve_python by simp
qed

text \<open>
  C6, as stated, has an empty candidate list answered at once by a failure of its own
  kind, NoEndpointsConfigured. The code has no early return and no such kind. With the
  port list of cpp empty, a source outside Latin-1 makes \<open>dispatch\<close> throw before the
  ports are looked at; and for a source within Latin-1 the call runs past the empty loop,
  prints \<^verbatim>\<open>Comm Error: All 0 ports failed for CPP\<close> and returns the error
  \<^verbatim>\<open>No available cpp node ports\<close>, the very result it returns when the ten configured
  ports have all been tried in vain.
\<close>

theorem empty_port_list_is_not_distinguished:
  "dispatch stub_platform offline_env [(''cpp'', [])] empty_world ''cpp'' [960]
     = (empty_world,
        Threw ''The string to be encoded contains characters outside of the Latin1 range.'') \<and>
   snd (dispatch stub_platform offline_env [(''cpp'', [])] empty_world ''cpp'' print_1)
     = Ret (Some (Failed (JStr ''No available cpp node ports''))) \<and>
   last (terminal (fst (dispatch stub_platform offline_env [(''cpp'', [])] empty_world ''cpp'' print_1)))
     = (''Comm Error: All 0 ports failed for CPP'', ''error'') \<and>
   snd (dispatch stub_platform offline_env AuraComm_nodes empty_world ''cpp'' print_1)
     = Ret (Some (Failed (JStr ''No available cpp node ports''))) \<and>
   length (requests (fst (dispatch stub_platform offline_env AuraComm_nodes empty_world ''cpp'' print_1)))
     = 10"
proof -
  have a: "dispatch stub_platform offline_env [(''cpp'', [])] empty_world ''cpp'' [960]
     = (empty_world,
        Threw ''The string to be encoded contains characters outside of the Latin1 range.'')"
    by (simp add: dispatch_def is_latin1_def btoa_error_msg_def)
  have b: "snd (dispatch stub_platform offline_env [(''cpp'', [])] empty_world ''cpp'' print_1)
     = Ret (Some (Failed (JStr ''No available cpp node ports''))) \<and>
   last (terminal (fst (dispatch stub_platform offline_env [(''cpp'', [])] empty_world ''cpp'' print_1)))
     = (''Comm Error: All 0 ports failed for CPP'', ''error'')"
    using print_1_latin1 resolve_empty
    by (simp add: dispatch_def Let_def print_line_def no_ports_error_def all_failed_line_def
          stub_platform_def upper_char_def show_nat_eval)
  note c = offline_dispatch [OF print_1_latin1 resolve_cpp, of stub_platform empty_world]
  from a b c show ?thesis
    by (simp add: no_ports_error_def empty_world_def)
qed

text \<open>
  C6, amended: when the source is within Latin-1 (so that the call gets as far as the
  ports) and the ports resolved for the engine are an empty list, \<open>dispatch\<close> sends no
  request and waits for no delay; it prints its payload line, \<^verbatim>\<open>Comm: Trying 0 ports\<close> and
  \<^verbatim>\<open>Comm Error: All 0 ports failed for LANG\<close>, and returns the failed result with error
  \<^verbatim>\<open>No available <lang> node ports\<close>. That is the result of every dispatch for the same
  engine whose candidates all fail: an empty list is not told apart from an exhausted one.
\<close>

theorem no_endpoints_no_attempts:
  assumes "is_latin1 source"
    and "resolve_ports ns lang = Some (PortList [])"
  shows "snd (dispatch P E ns w lang source)
           = Ret (Some (Failed (JStr (''No available '' @ lang @ '' node ports'')))) \<and>
         requests (fst (dispatch P E ns w lang source)) = requests w \<and>
         sleeps (fst (dispatch P E ns w lang source)) = sleeps w \<and>
         terminal (fst (dispatch P E ns w lang source))
           = terminal w @
             [(''Comm: Payload '' @ take 8 (uuid E) @ '' generated.'', ''dim''),
              (''Comm: Trying 0 ports for '' @ to_upper P lang @ '' node...'', ''info''),
              (''Comm Error: All 0 ports failed for '' @ to_upper P lang, ''error'')] \<and>
         (\<forall>E' ns' ports'.
            resolve_ports ns' lang = Some (PortList ports') \<and>
            (\<forall>i<length ports'.
               isl (tryPost E' (Suc i) (candidate_url (ports' ! i) (request_path lang))
                      (attempt_timeout (Suc i))))
            \<longrightarrow> snd (dispatch P E' ns' w lang source) = snd (dispatch P E ns w lang source))"
proof -
  have here: "snd (dispatch P E ns w lang source)
           = Ret (Some (Failed (JStr (''No available '' @ lang @ '' node ports'')))) \<and>
         requests (fst (dispatch P E ns w lang source)) = requests w \<and>
         sleeps (fst (dispatch P E ns w lang source)) = sleeps w \<and>
         terminal (fst (dispatch P E ns w lang source))
           = terminal w @
             [(''Comm: Payload '' @ take 8 (uuid E) @ '' generated.'', ''dim''),
              (''Comm: Trying 0 ports for '' @ to_upper P lang @ '' node...'', ''info''),
              (''Comm Error: All 0 ports failed for '' @ to_upper P lang, ''error'')]"
    using assms
    by (simp add: dispatch_def Let_def print_line_def no_ports_error_def all_failed_line_def
          show_nat_eval)
  have same: "snd (dispatch P E' ns' w lang source) = snd (dispatch P E ns w lang source)"
    if r: "resolve_ports ns' lang = Some (PortList ports')"
      and f: "\<forall>i<length ports'.
               isl (tryPost E' (Suc i) (candidate_url (ports' ! i) (request_path lang))
                      (attempt_timeout (Suc i)))"
    for E' ns' ports'
    using dispatch_all_fail [OF assms(1) r f, of P w] here
    by (simp add: no_ports_error_def)
  from here same show ?thesis by blast
qed

theorem no_endpoints_no_attempts_witness:
  "is_latin1 print_1 \<and> resolve_ports [(''cpp'', [])] ''cpp'' = Some (PortList []) \<and>
   snd (dispatch stub_platform scenario_env [(''cpp'', [])] empty_world ''cpp'' print_1)
     = Ret (Some (Failed (JStr ''No available cpp node ports''))) \<and>
   requests (fst (dispatch stub_platform scenario_env [(''cpp'', [])] empty_world ''cpp'' print_1)) = [] \<and>
   sleeps (fst (dispatch stub_platform scenario_env [(''cpp'', [])] empty_world ''cpp'' print_1)) = [] \<and>
   last (terminal (fst (dispatch stub_platform scenario_env [(''cpp'', [])] empty_world ''cpp'' print_1)))
     = (''Comm Error: All 0 ports failed for CPP'', ''error'')"
  using no_endpoints_no_attempts [OF print_1_latin1 resolve_empty, of stub_platform scenario_env empty_world]
    print_1_latin1 resolve_empty
  by (simp add: empty_world_def stub_platform_def upper_char_def)

text \<open>
  C5: if the candidates before the k-th fail and the k-th (counting from 0 in the port
  list) answers with a status in 200..299 and a parseable body, \<open>dispatch\<close> returns what
  \<open>handleResponse\<close> makes of that body, and the requests sent are exactly those to the
  first k + 1 candidates, in order: no later candidate is contacted. With k = 0 a single
  request is sent. The premises on the source and the engine say that the call reached
  the candidate loop.
\<close>

theorem first_success_wins:
  assumes "is_latin1 source"
    and "resolve_ports ns lang = Some (PortList ports)"
    and "k < length ports"
    and "\<forall>i<k. isl (tryPost E (Suc i) (candidate_url (ports ! i) (request_path lang)) (attempt_timeout (Suc i)))"
    and "tryPost E (Suc k) (candidate_url (ports ! k) (request_path lang)) (attempt_timeout (Suc k)) = Inr body"
  shows "snd (dispatch P E ns w lang source) = Ret (snd (handleResponse P w body)) \<and>
         requests (fst (dispatch P E ns w lang source))
           = requests w @
             map (\<lambda>i. (candidate_url (ports ! i) (request_path lang), attempt_timeout (Suc i))) [0..<Suc k] \<and>
         length (requests (fst (dispatch P E ns w lang source))) = length (requests w) + Suc k"
proof -
  note d = dispatch_first_success [OF assms, of P w]
  then show ?thesis by simp
qed

theorem first_success_wins_witness:
  "snd (dispatch stub_platform scenario_env AuraComm_nodes empty_world ''python'' print_1)
     = Ret (Some (Executed True (Some (JStr ''1'')) (JNum 0) (JNum 12))) \<and>
   requests (fst (dispatch stub_platform scenario_env AuraComm_nodes empty_world ''python'' print_1))
     = [(''http://localhost:55000/execute'', 4500), (''http://localhost:55001/execute'', 5000),
        (''http://localhost:55002/execute'', 5500), (''http://localhost:55003/execute'', 6000)]"
proof -
  let ?ports = "map (\<lambda>i. 55000 + i) [0..<10]"
  have k: "Suc (Suc (Suc 0)) < length ?ports" by simp
  have fails: "\<forall>i<Suc (Suc (Suc 0)).
      isl (tryPost scenario_env (Suc i) (candidate_url (?ports ! i) (request_path ''python''))
             (attempt_timeout (Suc i)))"
    by (simp add: All_less_Suc scenario_miss candidate_url_def request_path_def show_nat_eval upt_10)
  have hit: "tryPost scenario_env (Suc (Suc (Suc (Suc 0))))
      (candidate_url (?ports ! Suc (Suc (Suc 0))) (request_path ''python''))
      (attempt_timeout (Suc (Suc (Suc (Suc 0))))) = Inr scenario_body"
    by (simp add: scenario_hit candidate_url_def request_path_def show_nat_eval upt_10)
  from first_success_wins [OF print_1_latin1 resolve_python k fails hit, of stub_platform empty_world]
  show ?thesis
    by (simp add: empty_world_def scenario_body_def handleResponse_def handle_body_def has_prop_def
          nullish_def show_int_def show_nat_eval upt_10 candidate_url_def request_path_def
          attempt_timeout_def upt_conv_Cons)
qed

text \<open>
  C4, as stated, has the aggregate error name the count of endpoints exhausted. With the
  ten cpp ports all unreachable the error returned is \<^verbatim>\<open>No available cpp node ports\<close>:
  ten attempts were made, and the text does not contain the count.
\<close>

theorem aggregate_error_omits_count:
  "snd (dispatch stub_platform offline_env AuraComm_nodes empty_world ''cpp'' print_1)
     = Ret (Some (Failed (JStr ''No available cpp node ports''))) \<and>
   length (requests (fst (dispatch stub_platform offline_env AuraComm_nodes empty_world ''cpp'' print_1))) = 10 \<and>
   \<not> mentions ''No available cpp node ports'' ''10''"
proof -
  have "\<forall>i<length (map (\<lambda>i. 56000 + i) [0..<10]).
      isl (tryPost offline_env (Suc i)
             (candidate_url (map (\<lambda>i. 56000 + i) [0..<10] ! i) (request_path ''cpp''))
             (attempt_timeout (Suc i)))"
    using offline_fails by blast
  from dispatch_all_fail [OF print_1_latin1 resolve_cpp this, of stub_platform empty_world]
  show ?thesis
    by (simp add: no_ports_error_def empty_world_def)
qed

text \<open>
  C4, amended: if all N candidate endpoints of an engine fail, \<open>dispatch\<close> returns one
  failed result after exactly N attempts. The k-th attempt (k = 1..N) has the timeout
  4000 + 500 k milliseconds, above the base of 4000 (the default of 5000 in \<^verbatim>\<open>tryPost\<close>
  is never used: every call passes its timeout), and is followed by a delay of
  200 + 50 k. The error returned names the engine only; the count of ports is in the last
  line printed to the terminal, \<^verbatim>\<open>Comm Error: All N ports failed for LANG\<close>.
\<close>

theorem all_endpoints_fail:
  assumes "is_latin1 source"
    and "resolve_ports ns lang = Some (PortList ports)"
    and "\<forall>i<length ports.
           isl (tryPost E (Suc i) (candidate_url (ports ! i) (request_path lang)) (attempt_timeout (Suc i)))"
  shows "snd (dispatch P E ns w lang source)
           = Ret (Some (Failed (JStr (''No available '' @ lang @ '' node ports'')))) \<and>
         mentions (''No available '' @ lang @ '' node ports'') lang \<and>
         requests (fst (dispatch P E ns w lang source))
           = requests w @
             map (\<lambda>i. (candidate_url (ports ! i) (request_path lang), 4000 + (i + 1) * 500)) [0..<length ports] \<and>
         length (requests (fst (dispatch P E ns w lang source))) = length (requests w) + length ports \<and>
         sleeps (fst (dispatch P E ns w lang source))
           = sleeps w @ map (\<lambda>i. 200 + (i + 1) * 50) [0..<length ports] \<and>
         last (terminal (fst (dispatch P E ns w lang source)))
           = (''Comm Error: All '' @ show_nat (length ports) @ '' ports failed for '' @ to_upper P lang,
              ''error'') \<and>
         mentions (''Comm Error: All '' @ show_nat (length ports) @ '' ports failed for '' @ to_upper P lang)
           (show_nat (length ports))"
proof -
  note d = dispatch_all_fail [OF assms, of P w]
  have m1: "mentions (''No available '' @ lang @ '' node ports'') lang"
    by (rule mentions_middle)
  have m2: "mentions (''Comm Error: All '' @ show_nat (length ports) @ '' ports failed for '' @ to_upper P lang)
           (show_nat (length ports))"
    by (rule mentions_middle)
  show ?thesis
    using d m1 m2
    by (simp add: no_ports_error_def all_failed_line_def attempt_timeout_def attempt_delay_def)
qed

theorem all_endpoints_fail_witness:
  "snd (dispatch stub_platform offline_env AuraComm_nodes empty_world ''cpp'' print_1)
     = Ret (Some (Failed (JStr ''No available cpp node ports''))) \<and>
   map snd (requests (fst (dispatch stub_platform offline_env AuraComm_nodes empty_world ''cpp'' print_1)))
     = [4500, 5000, 5500, 6000, 6500, 7000, 7500, 8000, 8500, 9000] \<and>
   last (terminal (fst (dispatch stub_platform offline_env AuraComm_nodes empty_world ''cpp'' print_1)))
     = (''Comm Error: All 10 ports failed for CPP'', ''error'')"
proof -
  have "\<forall>i<length (map (\<lambda>i. 56000 + i) [0..<10]).
      isl (tryPost offline_env (Suc i)
             (candidate_url (map (\<lambda>i. 56000 + i) [0..<10] ! i) (request_path ''cpp''))
             (attempt_timeout (Suc i)))"
    using offline_fails by blast
  from all_endpoints_fail [OF print_1_latin1 resolve_cpp this, of stub_platform empty_world]
  show ?thesis
    by (simp add: empty_world_def stub_platform_def upper_char_def show_nat_eval upt_10)
qed

section \<open>The facade and its cache\<close>




text \<open>
  C9, as stated, has \<open>execute\<close> store the result returned by the dispatcher, failed
  results too, and hand that same result to the caller. With every cpp port unreachable
  the dispatcher returns the failure \<^verbatim>\<open>No available cpp node ports\<close>; what \<open>execute\<close>
  stores under the key, and prints as a success, is the text
  \<^verbatim>\<open>[CPP] Fallback Execution simulated.\<close>
\<close>

theorem failed_dispatch_caches_fallback:
  "snd (dispatch stub_platform offline_env AuraComm_nodes empty_world ''cpp'' print_1)
     = Ret (Some (Failed (JStr ''No available cpp node ports''))) \<and>
   cache (world_after stub_platform offline_env AuraComm_nodes empty_world ''cpp'' print_1)
       (codeHash stub_platform print_1 ''cpp'')
     = Some (JStr ''[CPP] Fallback Execution simulated.'') \<and>
   last (terminal (world_after stub_platform offline_env AuraComm_nodes empty_world ''cpp'' print_1))
     = (''[CPP] Fallback Execution simulated.'', ''success'')"
proof -
  let ?P = stub_platform and ?E = offline_env and ?h = "codeHash stub_platform print_1 ''cpp''"
  let ?w0 = "print_line empty_world (''Offloading '' @ to_upper ?P ''cpp'' @ '' to background thread...'') ''info''"
  note d = offline_dispatch [OF print_1_latin1 resolve_cpp, of ?P empty_world]
  then have nosucc: "snd (dispatch ?P ?E AuraComm_nodes empty_world ''cpp'' print_1)
      \<noteq> Ret (Some (Executed True out ec lat))" for out ec lat
    by simp
  have run: "run_engine ?P ?E AuraComm_nodes ?w0 ''cpp'' print_1 ?h
      = dispatchBridge ?P ?E AuraComm_nodes ?w0 print_1 ''cpp'' ?h"
    by (rule run_engine_bridge) simp
  have w: "world_after ?P ?E AuraComm_nodes empty_world ''cpp'' print_1
      = fst (dispatchBridge ?P ?E AuraComm_nodes ?w0 print_1 ''cpp'' ?h)"
    using execute_miss_returned [OF print_1_not_blank empty_world_miss,
        where P = "?P" and engine = "''cpp''" and E = "?E" and ns = AuraComm_nodes]
    by (simp only: run dispatchBridge_returns)
  from dispatchBridge_failure [of ?P ?E AuraComm_nodes empty_world "''cpp''" print_1 ?w0 ?h, OF nosucc]
  show ?thesis
    using d unfolding w
    by (simp add: no_ports_error_def fallback_text_def stub_platform_def upper_char_def)
qed

text \<open>
  C9, amended: on a cache miss with a non-blank buffer, what \<open>execute\<close> stores under the
  key, and prints last, is a text derived from the dispatcher's result, not the result:
  \<^item> for cpp and rust, when the dispatcher returned a success, the summary
    \<^verbatim>\<open>[LANG] Exit:<exit> <output>\<close> (printed with the latency appended);
  \<^item> for cpp and rust, when it returned a failure or nothing, or threw, the fixed text
    \<^verbatim>\<open>[LANG] Fallback Execution simulated.\<close>, printed as a success;
  \<^item> for python, when it returned a success, the output;
  \<^item> for python otherwise, nothing of the dispatcher's: the code is run in Pyodide and
    the text of its value (\<^verbatim>\<open>Done\<close> when there is none) is stored.
  \<open>execute\<close> itself returns no value. The premises on the conversions say that the
  values can be written into the printed line.
\<close>

theorem cache_miss_stores_text:
  assumes "\<not> is_blank code"
    and "\<not> cache_hit (checkCache w (codeHash P code engine))"
  shows "((engine = ''cpp'' \<or> engine = ''rust'') \<and>
          snd (dispatch P E ns w engine code) = Ret (Some (Executed True out ec lat)) \<and>
          js_toString (nullish (Some ec) (JNum 0)) = Some se \<and>
          js_toString (nullish out (JStr [])) = Some so \<and>
          js_toString (nullish (Some lat) (JNum 0)) = Some sl
          \<longrightarrow> cache (world_after P E ns w engine code) (codeHash P code engine)
                = Some (JStr (''['' @ to_upper P engine @ ''] Exit:'' @ se @ '' '' @ so)) \<and>
              last (terminal (world_after P E ns w engine code))
                = (''['' @ to_upper P engine @ ''] Exit:'' @ se @ '' '' @ so @ '' ['' @ sl @ ''ms]'',
                   ''success'')) \<and>
         ((engine = ''cpp'' \<or> engine = ''rust'') \<and>
          (\<forall>out ec lat. snd (dispatch P E ns w engine code) \<noteq> Ret (Some (Executed True out ec lat)))
          \<longrightarrow> cache (world_after P E ns w engine code) (codeHash P code engine)
                = Some (JStr (''['' @ to_upper P engine @ ''] Fallback Execution simulated.'')) \<and>
              last (terminal (world_after P E ns w engine code))
                = (''['' @ to_upper P engine @ ''] Fallback Execution simulated.'', ''success'')) \<and>
         (engine = ''python'' \<and>
          snd (dispatch P E ns w engine code) = Ret (Some (Executed True out ec lat)) \<and>
          js_toString (nullish out (JStr [])) = Some so
          \<longrightarrow> cache (world_after P E ns w engine code) (codeHash P code engine)
                = Some (nullish out (JStr [])) \<and>
              last (terminal (world_after P E ns w engine code)) = (so, ''success'')) \<and>
         (engine = ''python'' \<and>
          (\<forall>out ec lat. snd (dispatch P E ns w engine code) \<noteq> Ret (Some (Executed True out ec lat))) \<and>
          (pyodide_ready w \<or> load_pyodide E = Loaded) \<and>
          run_python E code = PyResult pr
          \<longrightarrow> cache (world_after P E ns w engine code) (codeHash P code engine)
                = Some (JStr (case pr of None \<Rightarrow> ''Done'' | Some s \<Rightarrow> s)) \<and>
              last (terminal (world_after P E ns w engine code))
                = (case pr of None \<Rightarrow> ''Done'' | Some s \<Rightarrow> s, ''success'')) \<and>
         snd (execute P E ns w engine code) = Ret ()"
proof (intro conjI impI)
  let ?h = "codeHash P code engine"
  let ?w0 = "print_line w (''Offloading '' @ to_upper P engine @ '' to background thread...'') ''info''"
  {
    assume a: "(engine = ''cpp'' \<or> engine = ''rust'') \<and>
          snd (dispatch P E ns w engine code) = Ret (Some (Executed True out ec lat)) \<and>
          js_toString (nullish (Some ec) (JNum 0)) = Some se \<and>
          js_toString (nullish out (JStr [])) = Some so \<and>
          js_toString (nullish (Some lat) (JNum 0)) = Some sl"
    then have e: "engine = ''cpp'' \<or> engine = ''rust''" by blast
    note w = execute_bridge_world [OF assms e, of E ns]
    from a have a1: "snd (dispatch P E ns w engine code) = Ret (Some (Executed True out ec lat))"
      and a2: "js_toString (nullish (Some ec) (JNum 0)) = Some se"
      and a3: "js_toString (nullish out (JStr [])) = Some so"
      and a4: "js_toString (nullish (Some lat) (JNum 0)) = Some sl"
      by blast+
    note dispatchBridge_success [OF a1 a2 a3 a4, of ?w0 ?h]
    then have both: "cache (world_after P E ns w engine code) ?h
                = Some (JStr (''['' @ to_upper P engine @ ''] Exit:'' @ se @ '' '' @ so)) \<and>
              last (terminal (world_after P E ns w engine code))
                = (''['' @ to_upper P engine @ ''] Exit:'' @ se @ '' '' @ so @ '' ['' @ sl @ ''ms]'',
                   ''success'')"
      unfolding w by (simp add: summary_text_def)
    from both show "cache (world_after P E ns w engine code) ?h
                = Some (JStr (''['' @ to_upper P engine @ ''] Exit:'' @ se @ '' '' @ so))" by blast
    from both show "last (terminal (world_after P E ns w engine code))
                = (''['' @ to_upper P engine @ ''] Exit:'' @ se @ '' '' @ so @ '' ['' @ sl @ ''ms]'',
                   ''success'')" by blast
  }
  {
    assume a: "(engine = ''cpp'' \<or> engine = ''rust'') \<and>
          (\<forall>out ec lat. snd (dispatch P E ns w engine code) \<noteq> Ret (Some (Executed True out ec lat)))"
    then have e: "engine = ''cpp'' \<or> engine = ''rust''" by blast
    note w = execute_bridge_world [OF assms e, of E ns]
    from a have a1: "snd (dispatch P E ns w engine code) \<noteq> Ret (Some (Executed True out ec lat))"
      for out ec lat
      by blast
    note dispatchBridge_failure [of P E ns w engine code ?w0 ?h, OF a1]
    then have both: "cache (world_after P E ns w engine code) ?h
                = Some (JStr (''['' @ to_upper P engine @ ''] Fallback Execution simulated.'')) \<and>
              last (terminal (world_after P E ns w engine code))
                = (''['' @ to_upper P engine @ ''] Fallback Execution simulated.'', ''success'')"
      unfolding w by (simp add: fallback_text_def)
    from both show "cache (world_after P E ns w engine code) ?h
                = Some (JStr (''['' @ to_upper P engine @ ''] Fallback Execution simulated.''))" by blast
    from both show "last (terminal (world_after P E ns w engine code))
                = (''['' @ to_upper P engine @ ''] Fallback Execution simulated.'', ''success'')" by blast
  }
  {
    assume a: "engine = ''python'' \<and>
          snd (dispatch P E ns w engine code) = Ret (Some (Executed True out ec lat)) \<and>
          js_toString (nullish out (JStr [])) = Some so"
    then have e: "engine = ''python''" by blast
    from a e have a1: "snd (dispatch P E ns w ''python'' code) = Ret (Some (Executed True out ec lat))"
      and a2: "js_toString (nullish out (JStr [])) = Some so"
      by blast+
    note r = runPython_success [OF a1 a2, of ?w0 ?h]
    have w: "world_after P E ns w engine code = fst (runPython P E ns ?w0 code ?h)"
      using execute_python_world [of code w P E ns] assms r unfolding e by blast
    from r show "cache (world_after P E ns w engine code) ?h = Some (nullish out (JStr []))"
      unfolding w by blast
    from r show "last (terminal (world_after P E ns w engine code)) = (so, ''success'')"
      unfolding w by blast
  }
  {
    assume a: "engine = ''python'' \<and>
          (\<forall>out ec lat. snd (dispatch P E ns w engine code) \<noteq> Ret (Some (Executed True out ec lat))) \<and>
          (pyodide_ready w \<or> load_pyodide E = Loaded) \<and>
          run_python E code = PyResult pr"
    then have e: "engine = ''python''" by blast
    let ?w1 = "fst (dispatch P E ns ?w0 ''python'' code)"
    from a e have a1: "snd (dispatch P E ns w ''python'' code) \<noteq> Ret (Some (Executed True out ec lat))"
      for out ec lat
      by blast
    note run = runPython_failure [of P E ns w code ?w0 ?h, OF a1]
    have "pyodide_ready ?w1 = pyodide_ready w"
      using dispatch_frame [of P E ns ?w0 "''python''" code] by (simp add: print_line_def)
    with a have ready: "pyodide_ready ?w1 \<or> load_pyodide E = Loaded" by blast
    from a have py: "run_python E code = PyResult pr" by blast
    note f = pyodide_fallback_result [OF ready py, of ?h]
    have w: "world_after P E ns w engine code = fst (pyodide_fallback E ?w1 code ?h)"
      using execute_python_world [of code w P E ns] assms f unfolding e run [unfolded e] by blast
    from f show "cache (world_after P E ns w engine code) ?h
        = Some (JStr (case pr of None \<Rightarrow> ''Done'' | Some s \<Rightarrow> s))"
      unfolding w by blast
    from f show "last (terminal (world_after P E ns w engine code))
        = (case pr of None \<Rightarrow> ''Done'' | Some s \<Rightarrow> s, ''success'')"
      unfolding w by blast
  }
  show "snd (execute P E ns w engine code) = Ret ()"
    unfolding execute_miss [OF assms]
    by (simp add: split_beta split: outcome.splits)
qed

theorem cache_miss_stores_text_witness:
  "cache (world_after stub_platform scenario_env AuraComm_nodes empty_world ''python'' print_1)
       (codeHash stub_platform print_1 ''python'')
     = Some (JStr ''1'') \<and>
   cache (world_after stub_platform offline_env AuraComm_nodes empty_world ''rust'' print_1)
       (codeHash stub_platform print_1 ''rust'')
     = Some (JStr ''[RUST] Fallback Execution simulated.'')"
proof -
  note py = cache_miss_stores_text [OF print_1_not_blank empty_world_miss,
      where P = stub_platform and engine = "''python''" and E = scenario_env and ns = AuraComm_nodes
        and out = "Some (JStr ''1'')" and ec = "JNum 0" and lat = "JNum 12" and so = "''1''"]
  note rs = cache_miss_stores_text [OF print_1_not_blank empty_world_miss,
      where P = stub_platform and engine = "''rust''" and E = offline_env and ns = AuraComm_nodes]
  note d1 = scenario_dispatch [of stub_platform empty_world]
  note d2 = offline_dispatch [OF print_1_latin1 resolve_rust, of stub_platform empty_world]
  have a: "cache (world_after stub_platform scenario_env AuraComm_nodes empty_world ''python'' print_1)
       (codeHash stub_platform print_1 ''python'') = Some (JStr ''1'')"
    using py d1 by (simp add: nullish_def)
  have b: "cache (world_after stub_platform offline_env AuraComm_nodes empty_world ''rust'' print_1)
       (codeHash stub_platform print_1 ''rust'') = Some (JStr ''[RUST] Fallback Execution simulated.'')"
    using rs d2 by (simp add: stub_platform_def upper_char_def)
  from a b show ?thesis by blast
qed

text \<open>
  C10: the key is the hexadecimal SHA-256 digest of the buffer with the engine name
  appended, with nothing between them. The requests (\<^verbatim>\<open>a\<close>, cpp) and (\<^verbatim>\<open>ac\<close>, pp) differ and
  have the same concatenation, hence the same key, whatever the digest function; after
  the first has been executed, executing the second prints the text stored for the first,
  since the lookup comes before the engine is examined.
\<close>

theorem cache_key_is_not_injective:
  assumes "\<not> cache_hit (checkCache w (codeHash P [97] ''cpp''))"
  shows "(\<forall>code engine.
            codeHash P code engine = concat (map hex_byte (sha256 P (utf8_encode P (code @ widen engine))))) \<and>
         (([97], ''cpp'') :: 16 word list \<times> string) \<noteq> ([97, 99], ''pp'') \<and>
         [97] @ widen ''cpp'' = [97, 99] @ widen ''pp'' \<and>
         codeHash P [97] ''cpp'' = codeHash P [97, 99] ''pp'' \<and>
         (\<exists>s. s \<noteq> [] \<and>
            cache (world_after P E1 ns w ''cpp'' [97]) (codeHash P [97] ''cpp'') = Some (JStr s) \<and>
            execute P E2 ns (world_after P E1 ns w ''cpp'' [97]) ''pp'' [97, 99]
              = ((world_after P E1 ns w ''cpp'' [97])
                   \<lparr>terminal := terminal (world_after P E1 ns w ''cpp'' [97]) @
                      [(''Result retrieved from local cache (0ms).'', ''info''), (s, ''success'')]\<rparr>,
                 Ret ()))"
proof -
  let ?w1 = "world_after P E1 ns w ''cpp'' [97]"
  have nb1: "\<not> is_blank [97]" and nb2: "\<not> is_blank [97, 99]"
    by (simp_all add: is_blank_def is_js_space_def)
  have cat: "[97] @ widen ''cpp'' = [97, 99] @ widen ''pp''"
    by (simp add: widen_def)
  then have key: "codeHash P [97] ''cpp'' = codeHash P [97, 99] ''pp''"
    by (simp only: codeHash_def)
  have e: "''cpp'' = ''cpp'' \<or> ''cpp'' = ''rust''" by simp
  have "\<exists>s. s \<noteq> [] \<and> cache ?w1 (codeHash P [97] ''cpp'') = Some (JStr s)"
    unfolding execute_bridge_world [OF nb1 assms e]
    by (rule dispatchBridge_stores_text)
  then obtain s where s: "s \<noteq> []" and c: "cache ?w1 (codeHash P [97] ''cpp'') = Some (JStr s)"
    by blast
  from c have c': "cache ?w1 (codeHash P [97, 99] ''pp'') = Some (JStr s)"
    by (simp only: key)
  note hit = execute_hit [OF nb2 c' s, of E2 ns]
  have last: "\<exists>s. s \<noteq> [] \<and>
            cache ?w1 (codeHash P [97] ''cpp'') = Some (JStr s) \<and>
            execute P E2 ns ?w1 ''pp'' [97, 99]
              = (?w1\<lparr>terminal := terminal ?w1 @
                      [(''Result retrieved from local cache (0ms).'', ''info''), (s, ''success'')]\<rparr>,
                 Ret ())"
    using s c hit by blast
  have def: "\<forall>code engine.
            codeHash P code engine = concat (map hex_byte (sha256 P (utf8_encode P (code @ widen engine))))"
    by (simp add: codeHash_def hash_def)
  have ne: "(([97], ''cpp'') :: 16 word list \<times> string) \<noteq> ([97, 99], ''pp'')"
    by simp
  from def ne cat key last show ?thesis by blast
qed

theorem cache_key_is_not_injective_witness:
  "terminal (world_after stub_platform offline_env AuraComm_nodes
       (world_after stub_platform offline_env AuraComm_nodes empty_world ''cpp'' [97]) ''pp'' [97, 99])
     = terminal (world_after stub_platform offline_env AuraComm_nodes empty_world ''cpp'' [97]) @
       [(''Result retrieved from local cache (0ms).'', ''info''),
        (''[CPP] Fallback Execution simulated.'', ''success'')]"
proof -
  have nb: "\<not> is_blank [97]" and l1: "is_latin1 [97]"
    by (simp_all add: is_blank_def is_js_space_def is_latin1_def)
  note t = cache_key_is_not_injective [OF empty_world_miss,
      where P = stub_platform and ?E1.0 = offline_env and ?E2.0 = offline_env and ns = AuraComm_nodes]
  note c = offline_cpp_first_call [OF nb l1 empty_world_miss, of stub_platform]
  from t c show ?thesis
    by (auto simp: fallback_text_def stub_platform_def upper_char_def)
qed

end
